theory Spec2Isabelle
  imports Complex_Main
begin

section \<open>Single-precision values\<close>

text \<open>
  The kernel computes on C++ \<open>float\<close> and \<open>vec3f\<close>. A \<open>float\<close> is one of: not-a-number,
  minus infinity, a finite number, plus infinity. Finite numbers are carried as reals;
  an arithmetic result beyond the largest finite float overflows to the infinity of its
  sign. Rounding of the mantissa and the sign of zero are not represented: no statement
  below depends on them. Coordinates and channel indices are C++ \<open>int\<close>, carried as
  integers. The sums in the assertions of \<open>execute\<close> are formed from tile fields of any
  size, so there the 32-bit wrap-around of \<open>int\<close> is written out (\<open>add32\<close>).
\<close>

datatype f32 = NaN | NInf | Fin real | PInf

text \<open>\<open>std::numeric_limits<float>::max()\<close>, the largest finite float.\<close>

definition flt_max :: real where
  "flt_max = 2 ^ 128 - 2 ^ 104"

fun isnan :: "f32 \<Rightarrow> bool" where
  "isnan NaN = True"
| "isnan _ = False"


text \<open>The comparison \<open><\<close> of floats: false as soon as one side is NaN.\<close>

fun f32_less :: "f32 \<Rightarrow> f32 \<Rightarrow> bool" where
  "f32_less NaN _ = False"
| "f32_less _ NaN = False"
| "f32_less NInf NInf = False"
| "f32_less NInf _ = True"
| "f32_less (Fin a) NInf = False"
| "f32_less (Fin a) (Fin b) = (a < b)"
| "f32_less (Fin a) PInf = True"
| "f32_less PInf _ = False"

definition round_f32 :: "real \<Rightarrow> f32" where
  "round_f32 r = (if flt_max < r then PInf else if r < - flt_max then NInf else Fin r)"

fun f32_mul :: "f32 \<Rightarrow> f32 \<Rightarrow> f32" where
  "f32_mul NaN _ = NaN"
| "f32_mul _ NaN = NaN"
| "f32_mul (Fin a) (Fin b) = round_f32 (a * b)"
| "f32_mul (Fin a) PInf = (if a = 0 then NaN else if 0 < a then PInf else NInf)"
| "f32_mul (Fin a) NInf = (if a = 0 then NaN else if 0 < a then NInf else PInf)"
| "f32_mul PInf (Fin b) = (if b = 0 then NaN else if 0 < b then PInf else NInf)"
| "f32_mul NInf (Fin b) = (if b = 0 then NaN else if 0 < b then NInf else PInf)"
| "f32_mul PInf PInf = PInf"
| "f32_mul PInf NInf = NInf"
| "f32_mul NInf PInf = NInf"
| "f32_mul NInf NInf = PInf"

fun f32_add :: "f32 \<Rightarrow> f32 \<Rightarrow> f32" where
  "f32_add NaN _ = NaN"
| "f32_add _ NaN = NaN"
| "f32_add (Fin a) (Fin b) = round_f32 (a + b)"
| "f32_add (Fin a) PInf = PInf"
| "f32_add (Fin a) NInf = NInf"
| "f32_add PInf NInf = NaN"
| "f32_add PInf _ = PInf"
| "f32_add NInf PInf = NaN"
| "f32_add NInf _ = NInf"

text \<open>\<open>min\<close> and \<open>max\<close> of two floats, as \<open>b < a ? b : a\<close> and \<open>a < b ? b : a\<close>.\<close>

definition f32_min :: "f32 \<Rightarrow> f32 \<Rightarrow> f32" where
  "f32_min a b = (if f32_less b a then b else a)"

definition f32_max :: "f32 \<Rightarrow> f32 \<Rightarrow> f32" where
  "f32_max a b = (if f32_less a b then b else a)"

subsection \<open>Three-component vectors\<close>

datatype vec3f = Vec3f (vx: f32) (vy: f32) (vz: f32)

text \<open>
  Modelled from the spec: the operator \<open>vec3f * float\<close> is declared with \<open>vec3f\<close>, in a
  header that is not at hand. The specification's "multiply by the input scale" and
  "v * 0.5" act on each of the three channels.
\<close>

definition vec3f_mul :: "vec3f \<Rightarrow> f32 \<Rightarrow> vec3f" where
  "vec3f_mul v s = Vec3f (f32_mul (vx v) s) (f32_mul (vy v) s) (f32_mul (vz v) s)"

text \<open>
  Modelled from the spec: the operator \<open>vec3f + float\<close>, likewise; the specification's
  "+ 0.5" acts on each channel.
\<close>

definition vec3f_add :: "vec3f \<Rightarrow> f32 \<Rightarrow> vec3f" where
  "vec3f_add v s = Vec3f (f32_add (vx v) s) (f32_add (vy v) s) (f32_add (vz v) s)"

text \<open>
  Modelled from the spec: \<open>nan_to_zero\<close> is called by the kernel and defined in a header
  that is not at hand; the specification says "replace NaN with 0". \<open>nan_to_zero1\<close> is
  its action on one component.
\<close>

definition nan_to_zero1 :: "f32 \<Rightarrow> f32" where
  "nan_to_zero1 a = (if isnan a then Fin 0 else a)"

definition nan_to_zero :: "vec3f \<Rightarrow> vec3f" where
  "nan_to_zero v = Vec3f (nan_to_zero1 (vx v)) (nan_to_zero1 (vy v)) (nan_to_zero1 (vz v))"

text \<open>
  Modelled from the spec: \<open>clamp\<close> is called by the kernel and defined in a header that
  is not at hand; the specification says "clamp to [lo, hi]", taken as
  \<open>min(max(x, lo), hi)\<close> on each component. \<open>clamp1\<close> is its action on one component.
\<close>

definition clamp1 :: "f32 \<Rightarrow> f32 \<Rightarrow> f32 \<Rightarrow> f32" where
  "clamp1 a lo hi = f32_min (f32_max a lo) hi"

definition clamp :: "vec3f \<Rightarrow> f32 \<Rightarrow> f32 \<Rightarrow> vec3f" where
  "clamp v lo hi = Vec3f (clamp1 (vx v) lo hi) (clamp1 (vy v) lo hi) (clamp1 (vz v) lo hi)"

text \<open>The component of a vector that lands \<open>k\<close> channels after the first one.\<close>

definition comp3 :: "vec3f \<Rightarrow> int \<Rightarrow> f32" where
  "comp3 v k = (if k = 0 then vx v else if k = 1 then vy v else vz v)"

section \<open>Images, tensors, tiles, transfer functions\<close>

datatype error = AssertFailed | SrcOutOfBounds | DstOutOfBounds

text \<open>
  An image has a channel count (\<open>numChannels()\<close>), a height, a width and its pixels.
  Heights and widths are sizes, hence natural numbers.
\<close>

record image =
  numChannels :: nat
  height :: nat
  width :: nat
  pixels :: "int \<Rightarrow> int \<Rightarrow> vec3f"

text \<open>
  Modelled from the spec: \<open>get3\<close> belongs to the image accessor, whose declaration is not
  at hand; the specification says "read source pixel at (h, w)". A read outside the image
  is undefined behaviour in C++ and the error \<open>SrcOutOfBounds\<close> here.
\<close>

definition get3 :: "image \<Rightarrow> int \<Rightarrow> int \<Rightarrow> error + vec3f" where
  "get3 img h w =
     (if 0 \<le> h \<and> h < int (height img) \<and> 0 \<le> w \<and> w < int (width img)
      then Inr (pixels img h w) else Inl SrcOutOfBounds)"

text \<open>
  The destination tensor through its accessor: \<open>dimC\<close>, \<open>dimH\<close>, \<open>dimW\<close> are the
  accessor's \<open>C\<close>, \<open>H\<close>, \<open>W\<close>, and \<open>elems\<close> gives the element at (c, h, w). The blocked
  memory layout behind the accessor and the conversion of a stored float to the tensor's
  element type are not represented: an element is the float that was stored.
\<close>

record tensor =
  dimC :: nat
  dimH :: nat
  dimW :: nat
  elems :: "int \<times> int \<times> int \<Rightarrow> f32"

text \<open>
  Modelled from the spec: \<open>set\<close> and \<open>set3\<close> belong to the tensor accessor, whose
  declaration is not at hand; the specification says "write 0 to all C channels" and
  "write 3 channels". \<open>set3\<close> at channel c writes the three components at c, c + 1 and
  c + 2. A write outside the tensor is undefined behaviour in C++ and the error
  \<open>DstOutOfBounds\<close> here.
\<close>

definition tensor_set :: "tensor \<Rightarrow> int \<Rightarrow> int \<Rightarrow> int \<Rightarrow> f32 \<Rightarrow> error + tensor" where
  "tensor_set t c h w v =
     (if 0 \<le> c \<and> c < int (dimC t) \<and> 0 \<le> h \<and> h < int (dimH t) \<and> 0 \<le> w \<and> w < int (dimW t)
      then Inr (t\<lparr>elems := (elems t)((c, h, w) := v)\<rparr>)
      else Inl DstOutOfBounds)"

definition set3 :: "tensor \<Rightarrow> int \<Rightarrow> int \<Rightarrow> int \<Rightarrow> vec3f \<Rightarrow> error + tensor" where
  "set3 t c h w v =
     (case tensor_set t c h w (vx v) of Inl e \<Rightarrow> Inl e | Inr t1 \<Rightarrow>
      (case tensor_set t1 (c + 1) h w (vy v) of Inl e \<Rightarrow> Inl e | Inr t2 \<Rightarrow>
       tensor_set t2 (c + 2) h w (vz v)))"

text \<open>The tile; \<open>tileH\<close> and \<open>tileW\<close> are the fields \<open>H\<close> and \<open>W\<close> of \<open>ReorderTile\<close>.\<close>

record reorderTile =
  hSrcBegin :: int
  wSrcBegin :: int
  hDstBegin :: int
  wDstBegin :: int
  tileH :: int
  tileW :: int

text \<open>
  The transfer function is used through \<open>getInputScale\<close> and \<open>forward\<close> only. Both are
  fields of a record, so every statement below holds for any transfer function, or says
  what it assumes of it.
\<close>

record transferFunction =
  getInputScale :: f32
  forward :: "vec3f \<Rightarrow> vec3f"

section \<open>The input reorder node\<close>

text \<open>
  The fields of \<open>InputReorderNode\<close>, which \<open>executeKernel\<close> copies into the kernel
  object \<open>InputReorder\<close>: a null image pointer is \<open>None\<close>.
\<close>

record inputReorder =
  color :: "image option"
  albedo :: "image option"
  normal :: "image option"
  dst :: tensor
  tile :: reorderTile
  transferFunc :: transferFunction
  hdr :: bool
  snorm :: bool

definition setTile :: "inputReorder \<Rightarrow> int \<Rightarrow> int \<Rightarrow> int \<Rightarrow> int \<Rightarrow> int \<Rightarrow> int \<Rightarrow> inputReorder" where
  "setTile n hSrc wSrc hDst wDst H W =
     n\<lparr>tile := \<lparr>hSrcBegin = hSrc, wSrcBegin = wSrc, hDstBegin = hDst, wDstBegin = wDst,
                tileH = H, tileW = W\<rparr>\<rparr>"

text \<open>
  The constructor stores its arguments in the member initialisers, leaves the three image
  pointers null and, in its body, calls \<open>setTile(0, 0, 0, 0, 0, 0)\<close>. The member \<open>tile\<close>
  has no initialiser: when the body starts it holds whatever the memory held, which is the
  parameter \<open>tile0\<close> here. The assertions on the tensor's rank, layout and block size
  concern the memory layout and are not represented.
\<close>

definition InputReorderNode ::
  "tensor \<Rightarrow> transferFunction \<Rightarrow> bool \<Rightarrow> bool \<Rightarrow> reorderTile \<Rightarrow> inputReorder" where
  "InputReorderNode d tf hdrFlag snormFlag tile0 =
     setTile \<lparr>color = None, albedo = None, normal = None, dst = d, tile = tile0,
              transferFunc = tf, hdr = hdrFlag, snorm = snormFlag\<rparr> 0 0 0 0 0 0"

definition chanCount :: "image option \<Rightarrow> nat" where
  "chanCount i = (case i of Some img \<Rightarrow> numChannels img | None \<Rightarrow> 0)"

definition setSrc :: "inputReorder \<Rightarrow> image option \<Rightarrow> image option \<Rightarrow> image option \<Rightarrow> error + inputReorder" where
  "setSrc n col alb nrm =
     (if dimC (dst n) \<ge> chanCount col + chanCount alb + chanCount nrm
      then Inr (n\<lparr>color := col, albedo := alb, normal := nrm\<rparr>)
      else Inl AssertFailed)"

subsection \<open>The kernel\<close>

definition storeZero :: "tensor \<Rightarrow> int \<Rightarrow> int \<Rightarrow> int \<Rightarrow> error + tensor" where
  "storeZero t c h w = tensor_set t c h w (Fin 0)"

definition storeColor :: "inputReorder \<Rightarrow> tensor \<Rightarrow> int \<Rightarrow> int \<Rightarrow> int \<Rightarrow> vec3f \<Rightarrow> error + tensor" where
  "storeColor n t c h w value0 =
     (let value1 = vec3f_mul value0 (getInputScale (transferFunc n));
          value2 = clamp (nan_to_zero value1)
                     (if snorm n then Fin (- 1) else Fin 0)
                     (if hdr n then Fin flt_max else Fin 1);
          value3 = (if snorm n then vec3f_add (vec3f_mul value2 (Fin (1 / 2))) (Fin (1 / 2))
                    else value2);
          value4 = forward (transferFunc n) value3
      in set3 t c h w value4)"

definition storeAlbedo :: "inputReorder \<Rightarrow> tensor \<Rightarrow> int \<Rightarrow> int \<Rightarrow> int \<Rightarrow> vec3f \<Rightarrow> error + tensor" where
  "storeAlbedo n t c h w value0 =
     (let value1 = (if color n = None then vec3f_mul value0 (getInputScale (transferFunc n))
                    else value0);
          value2 = clamp (nan_to_zero value1) (Fin 0) (Fin 1);
          value3 = (if color n = None then forward (transferFunc n) value2 else value2)
      in set3 t c h w value3)"

definition storeNormal :: "inputReorder \<Rightarrow> tensor \<Rightarrow> int \<Rightarrow> int \<Rightarrow> int \<Rightarrow> vec3f \<Rightarrow> error + tensor" where
  "storeNormal n t c h w value0 =
     (let value1 = (if color n = None then vec3f_mul value0 (getInputScale (transferFunc n))
                    else value0);
          value2 = clamp (nan_to_zero value1) (Fin (- 1)) (Fin 1);
          value3 = vec3f_add (vec3f_mul value2 (Fin (1 / 2))) (Fin (1 / 2))
      in set3 t c h w value3)"

text \<open>The loop \<open>for (; c < dst.C; ++c) storeZero(c, hDst, wDst)\<close>.\<close>

function storeZeros :: "tensor \<Rightarrow> int \<Rightarrow> int \<Rightarrow> int \<Rightarrow> error + tensor" where
  "storeZeros t c h w =
     (if c < int (dimC t)
      then (case storeZero t c h w of Inl e \<Rightarrow> Inl e | Inr t' \<Rightarrow> storeZeros t' (c + 1) h w)
      else Inr t)"
  by pat_completeness auto
termination
  by (relation "measure (\<lambda>(t, c, h, w). nat (int (dimC t) - c))")
     (auto simp: storeZero_def tensor_set_def split: if_splits)

declare storeZeros.simps [simp del]

text \<open>
  The kernel has three blocks of one shape, for color, albedo and normal:
  \<open>if (img.ptr) { store(c, hDst, wDst, img.get3(hSrc, wSrc)); c += 3; }\<close>.
  \<open>storeImage\<close> is that block, on the pair of the tensor contents and \<open>c\<close>.
\<close>

definition storeImage ::
  "(tensor \<Rightarrow> int \<Rightarrow> int \<Rightarrow> int \<Rightarrow> vec3f \<Rightarrow> error + tensor) \<Rightarrow> image option \<Rightarrow>
   int \<Rightarrow> int \<Rightarrow> int \<Rightarrow> int \<Rightarrow> tensor \<times> int \<Rightarrow> error + tensor \<times> int" where
  "storeImage store img hSrc wSrc hDst wDst tc =
     (case img of
        None \<Rightarrow> Inr tc
      | Some i \<Rightarrow>
          (case get3 i hSrc wSrc of Inl e \<Rightarrow> Inl e | Inr v \<Rightarrow>
           (case store (fst tc) (snd tc) hDst wDst v of Inl e \<Rightarrow> Inl e
            | Inr t' \<Rightarrow> Inr (t', snd tc + 3))))"

text \<open>\<open>InputReorder::operator()(hDst, wDst)\<close> on the tensor contents \<open>t\<close>.\<close>

definition kernel :: "inputReorder \<Rightarrow> tensor \<Rightarrow> int \<Rightarrow> int \<Rightarrow> error + tensor" where
  "kernel n t hDst wDst =
     (let h = hDst - hDstBegin (tile n);
          w = wDst - wDstBegin (tile n)
      in if h \<ge> 0 \<and> h < tileH (tile n) \<and> w \<ge> 0 \<and> w < tileW (tile n)
         then
           (let hSrc = h + hSrcBegin (tile n);
                wSrc = w + wSrcBegin (tile n);
                wDst' = w + wDstBegin (tile n)
            in case storeImage (storeColor n) (color n) hSrc wSrc hDst wDst' (t, 0) of
                 Inl e \<Rightarrow> Inl e
               | Inr tc1 \<Rightarrow>
                 (case storeImage (storeAlbedo n) (albedo n) hSrc wSrc hDst wDst' tc1 of
                    Inl e \<Rightarrow> Inl e
                  | Inr tc2 \<Rightarrow>
                    (case storeImage (storeNormal n) (normal n) hSrc wSrc hDst wDst' tc2 of
                       Inl e \<Rightarrow> Inl e
                     | Inr tc3 \<Rightarrow> storeZeros (fst tc3) (snd tc3) hDst wDst')))
         else storeZeros t 0 hDst wDst)"

subsection \<open>Execution\<close>

text \<open>
  The kernel runs once for every pixel of the destination, in parallel. \<open>runKernels\<close>
  runs it over a list of pixels in the list's order; \<open>executeKernel\<close> uses the row-major
  order of the range (height, width). The order does not matter: a kernel call writes its
  own pixel only (lemma \<open>runKernels_Inr\<close> holds for every list).
\<close>

fun runKernels :: "inputReorder \<Rightarrow> tensor \<Rightarrow> (int \<times> int) list \<Rightarrow> error + tensor" where
  "runKernels n t [] = Inr t"
| "runKernels n t (p # ps) =
     (case kernel n t (fst p) (snd p) of Inl e \<Rightarrow> Inl e | Inr t' \<Rightarrow> runKernels n t' ps)"

definition pixelRange :: "nat \<Rightarrow> nat \<Rightarrow> (int \<times> int) list" where
  "pixelRange H W = concat (map (\<lambda>h. map (\<lambda>w. (int h, int w)) [0..<W]) [0..<H])"

text \<open>
  The sum of two \<open>int\<close> as the machine forms it: the mathematical sum, wrapped into
  the range from \<open>-2^31\<close> to \<open>2^31 - 1\<close>.
\<close>

definition add32 :: "int \<Rightarrow> int \<Rightarrow> int" where
  "add32 a b = (a + b + 2 ^ 31) mod 2 ^ 32 - 2 ^ 31"

text \<open>
  The four assertions of \<open>CPUInputReorderNode::execute\<close> and
  \<open>SYCLInputReorderNode::executeKernel\<close>. The image \<open>inp\<close> is the one that
  \<open>getInput()\<close> returns; \<open>getInput\<close> is declared in the node's header, so its result is
  a parameter here. A failed assertion is the error \<open>AssertFailed\<close>.
\<close>

definition tileAsserts :: "inputReorder \<Rightarrow> image \<Rightarrow> bool" where
  "tileAsserts n inp \<longleftrightarrow>
     add32 (tileH (tile n)) (hSrcBegin (tile n)) \<le> int (height inp) \<and>
     add32 (tileW (tile n)) (wSrcBegin (tile n)) \<le> int (width inp) \<and>
     add32 (tileH (tile n)) (hDstBegin (tile n)) \<le> int (dimH (dst n)) \<and>
     add32 (tileW (tile n)) (wDstBegin (tile n)) \<le> int (dimW (dst n))"

text \<open>
  \<open>SYCLInputReorderNode::executeKernel\<close>: the assertions, then the kernel on every pixel
  of the range (height, width) of the destination. The result is the contents of the
  destination afterwards.
\<close>

definition executeKernel :: "inputReorder \<Rightarrow> image \<Rightarrow> error + tensor" where
  "executeKernel n inp =
     (if tileAsserts n inp
      then runKernels n (dst n) (pixelRange (dimH (dst n)) (dimW (dst n)))
      else Inl AssertFailed)"

section \<open>What a run leaves in the destination\<close>

text \<open>
  The vectors that \<open>storeColor\<close>, \<open>storeAlbedo\<close> and \<open>storeNormal\<close> hand to \<open>set3\<close>
  (lemmas \<open>storeColor_set3\<close>, \<open>storeAlbedo_set3\<close>, \<open>storeNormal_set3\<close>).
\<close>

definition colorValue :: "inputReorder \<Rightarrow> vec3f \<Rightarrow> vec3f" where
  "colorValue n v =
     forward (transferFunc n)
       (let u = clamp (nan_to_zero (vec3f_mul v (getInputScale (transferFunc n))))
                  (if snorm n then Fin (- 1) else Fin 0)
                  (if hdr n then Fin flt_max else Fin 1)
        in if snorm n then vec3f_add (vec3f_mul u (Fin (1 / 2))) (Fin (1 / 2)) else u)"

definition albedoValue :: "inputReorder \<Rightarrow> vec3f \<Rightarrow> vec3f" where
  "albedoValue n v =
     (if color n = None
      then forward (transferFunc n)
             (clamp (nan_to_zero (vec3f_mul v (getInputScale (transferFunc n)))) (Fin 0) (Fin 1))
      else clamp (nan_to_zero v) (Fin 0) (Fin 1))"

definition normalValue :: "inputReorder \<Rightarrow> vec3f \<Rightarrow> vec3f" where
  "normalValue n v =
     vec3f_add
       (vec3f_mul
          (clamp (nan_to_zero (if color n = None
                               then vec3f_mul v (getInputScale (transferFunc n)) else v))
             (Fin (- 1)) (Fin 1))
          (Fin (1 / 2)))
       (Fin (1 / 2))"

text \<open>
  The kernel's test for a pixel of the tile, the source coordinates it reads there, and
  the number of channels it writes for an image: 3 if present, 0 if not.
\<close>

definition inTile :: "inputReorder \<Rightarrow> int \<Rightarrow> int \<Rightarrow> bool" where
  "inTile n hDst wDst \<longleftrightarrow>
     0 \<le> hDst - hDstBegin (tile n) \<and> hDst - hDstBegin (tile n) < tileH (tile n) \<and>
     0 \<le> wDst - wDstBegin (tile n) \<and> wDst - wDstBegin (tile n) < tileW (tile n)"

definition srcRow :: "inputReorder \<Rightarrow> int \<Rightarrow> int" where
  "srcRow n hDst = hDst - hDstBegin (tile n) + hSrcBegin (tile n)"

definition srcCol :: "inputReorder \<Rightarrow> int \<Rightarrow> int" where
  "srcCol n wDst = wDst - wDstBegin (tile n) + wSrcBegin (tile n)"

definition chans :: "image option \<Rightarrow> int" where
  "chans i = (if i = None then 0 else 3)"

text \<open>
  \<open>wrote t t' h w c0 c1 g\<close>: the tensor \<open>t'\<close> is \<open>t\<close> with the channels from \<open>c0\<close> up
  to \<open>c1\<close> (excluded) of pixel (h, w) set to \<open>g\<close>, and nothing else changed.
\<close>

definition wrote :: "tensor \<Rightarrow> tensor \<Rightarrow> int \<Rightarrow> int \<Rightarrow> int \<Rightarrow> int \<Rightarrow> (int \<Rightarrow> f32) \<Rightarrow> bool" where
  "wrote t t' h w c0 c1 g \<longleftrightarrow>
     dimC t' = dimC t \<and> dimH t' = dimH t \<and> dimW t' = dimW t \<and>
     (\<forall>k h' w'. elems t' (k, h', w') =
        (if h' = h \<and> w' = w \<and> c0 \<le> k \<and> k < c1 then g k else elems t (k, h', w')))"

text \<open>
  The value of channel \<open>k\<close> of the destination pixel after its kernel call (lemma
  \<open>kernel_Inr\<close>).
\<close>

definition pixelValue :: "inputReorder \<Rightarrow> int \<Rightarrow> int \<Rightarrow> int \<Rightarrow> f32" where
  "pixelValue n hDst wDst k =
     (if inTile n hDst wDst
      then (let hs = srcRow n hDst; ws = srcCol n wDst;
                c1 = chans (color n); c2 = c1 + chans (albedo n); c3 = c2 + chans (normal n)
            in if k < c1 then comp3 (colorValue n (pixels (the (color n)) hs ws)) k
               else if k < c2 then comp3 (albedoValue n (pixels (the (albedo n)) hs ws)) (k - c1)
               else if k < c3 then comp3 (normalValue n (pixels (the (normal n)) hs ws)) (k - c2)
               else Fin 0)
      else Fin 0)"

text \<open>
  Conditions under which nothing goes wrong: the read of an image at a coordinate is inside
  it; a pixel is inside the destination; an image has the size of the input image, or is
  at least as large; the two source sums of the assertions do not exceed the range of
  \<open>int\<close>; and \<open>executable\<close>, which is enough for a run to return normally (lemma
  \<open>executeKernel_ok\<close>).
\<close>

definition readable :: "image option \<Rightarrow> int \<Rightarrow> int \<Rightarrow> bool" where
  "readable i h w \<longleftrightarrow>
     (case i of None \<Rightarrow> True
      | Some img \<Rightarrow> 0 \<le> h \<and> h < int (height img) \<and> 0 \<le> w \<and> w < int (width img))"

definition inDst :: "tensor \<Rightarrow> int \<Rightarrow> int \<Rightarrow> bool" where
  "inDst t h w \<longleftrightarrow> 0 \<le> h \<and> h < int (dimH t) \<and> 0 \<le> w \<and> w < int (dimW t)"

definition sameSize :: "image \<Rightarrow> image option \<Rightarrow> bool" where
  "sameSize inp i \<longleftrightarrow>
     (case i of None \<Rightarrow> True | Some img \<Rightarrow> height img = height inp \<and> width img = width inp)"

definition coversInput :: "image \<Rightarrow> image option \<Rightarrow> bool" where
  "coversInput inp i \<longleftrightarrow>
     (case i of None \<Rightarrow> True | Some img \<Rightarrow> height inp \<le> height img \<and> width inp \<le> width img)"

definition srcSumsFit :: "inputReorder \<Rightarrow> bool" where
  "srcSumsFit n \<longleftrightarrow>
     tileH (tile n) + hSrcBegin (tile n) < 2 ^ 31 \<and> tileW (tile n) + wSrcBegin (tile n) < 2 ^ 31"

definition executable :: "inputReorder \<Rightarrow> image \<Rightarrow> bool" where
  "executable n inp \<longleftrightarrow>
     tileAsserts n inp \<and> 0 \<le> hSrcBegin (tile n) \<and> 0 \<le> wSrcBegin (tile n) \<and>
     srcSumsFit n \<and>
     sameSize inp (color n) \<and> sameSize inp (albedo n) \<and> sameSize inp (normal n) \<and>
     chans (color n) + chans (albedo n) + chans (normal n) \<le> int (dimC (dst n))"

section \<open>Example inputs\<close>

text \<open>
  A 4 x 4 destination with 9 channels and previous contents 7, three 2 x 2 images with a
  NaN and an infinity among their values, a tile of 2 x 2 placed at (1, 1), input scale 2
  and the identity as \<open>forward\<close>.
\<close>

definition exTransfer :: transferFunction where
  "exTransfer = \<lparr>getInputScale = Fin 2, forward = (\<lambda>v. v)\<rparr>"

definition exColor :: image where
  "exColor = \<lparr>numChannels = 3, height = 2, width = 2,
              pixels = (\<lambda>h w. Vec3f (Fin (1 / 4)) NaN PInf)\<rparr>"

definition exAlbedo :: image where
  "exAlbedo = \<lparr>numChannels = 3, height = 2, width = 2,
               pixels = (\<lambda>h w. Vec3f (Fin 2) (Fin (1 / 2)) NaN)\<rparr>"

definition exNormal :: image where
  "exNormal = \<lparr>numChannels = 3, height = 2, width = 2,
               pixels = (\<lambda>h w. Vec3f (Fin (- 1)) NaN (Fin 1))\<rparr>"

definition exDst :: tensor where
  "exDst = \<lparr>dimC = 9, dimH = 4, dimW = 4, elems = (\<lambda>p. Fin 7)\<rparr>"

definition exNode :: inputReorder where
  "exNode = \<lparr>color = Some exColor, albedo = Some exAlbedo, normal = Some exNormal, dst = exDst,
             tile = \<lparr>hSrcBegin = 0, wSrcBegin = 0, hDstBegin = 1, wDstBegin = 1,
                      tileH = 2, tileW = 2\<rparr>,
             transferFunc = exTransfer, hdr = False, snorm = False\<rparr>"

text \<open>
  The color pipeline in the words of the specification, with the upper bound
  (hdr ? +infinity : 1), to be compared with what the kernel stores.
\<close>

definition specColor :: "inputReorder \<Rightarrow> vec3f \<Rightarrow> vec3f" where
  "specColor n v =
     forward (transferFunc n)
       (let u = clamp (nan_to_zero (vec3f_mul v (getInputScale (transferFunc n))))
                  (if snorm n then Fin (- 1) else Fin 0)
                  (if hdr n then PInf else Fin 1)
        in if snorm n then vec3f_add (vec3f_mul u (Fin (1 / 2))) (Fin (1 / 2)) else u)"

text \<open>
  The result of a run is a tensor whose element at \<open>p\<close> is a finite number between
  \<open>lo\<close> and \<open>hi\<close>.
\<close>

definition storedWithin :: "error + tensor \<Rightarrow> int \<times> int \<times> int \<Rightarrow> real \<Rightarrow> real \<Rightarrow> bool" where
  "storedWithin r p lo hi \<longleftrightarrow>
     (case r of Inl e \<Rightarrow> False
      | Inr t \<Rightarrow> (case elems t p of Fin x \<Rightarrow> lo \<le> x \<and> x \<le> hi | _ \<Rightarrow> False))"

text \<open>
  A 1 x 1 color image holding plus infinity, run with \<open>hdr\<close> set and a \<open>forward\<close>
  that scales by \<open>2^-120\<close>.
\<close>

definition hdrColor :: image where
  "hdrColor = \<lparr>numChannels = 3, height = 1, width = 1,
               pixels = (\<lambda>h w. Vec3f PInf (Fin 0) (Fin 0))\<rparr>"

definition hdrDst :: tensor where
  "hdrDst = \<lparr>dimC = 3, dimH = 1, dimW = 1, elems = (\<lambda>p. Fin 0)\<rparr>"

definition hdrNode :: inputReorder where
  "hdrNode = \<lparr>color = Some hdrColor, albedo = None, normal = None, dst = hdrDst,
              tile = \<lparr>hSrcBegin = 0, wSrcBegin = 0, hDstBegin = 0, wDstBegin = 0,
                       tileH = 1, tileW = 1\<rparr>,
              transferFunc = \<lparr>getInputScale = Fin 1,
                              forward = (\<lambda>v. vec3f_mul v (Fin (1 / 2 ^ 120)))\<rparr>,
              hdr = True, snorm = False\<rparr>"


definition withForward :: "inputReorder \<Rightarrow> (vec3f \<Rightarrow> vec3f) \<Rightarrow> inputReorder" where
  "withForward n f = n\<lparr>transferFunc := (transferFunc n)\<lparr>forward := f\<rparr>\<rparr>"


text \<open>
  A color image with one channel and a destination with one channel.
\<close>

definition monoColor :: image where
  "monoColor = \<lparr>numChannels = 1, height = 1, width = 1,
                pixels = (\<lambda>h w. Vec3f (Fin 0) (Fin 0) (Fin 0))\<rparr>"

definition monoDst :: tensor where
  "monoDst = \<lparr>dimC = 1, dimH = 1, dimW = 1, elems = (\<lambda>p. Fin 0)\<rparr>"

definition monoNode :: inputReorder where
  "monoNode = setTile (InputReorderNode monoDst \<lparr>getInputScale = Fin 1, forward = (\<lambda>v. v)\<rparr> False False
                         \<lparr>hSrcBegin = 0, wSrcBegin = 0, hDstBegin = 0, wDstBegin = 0,
                          tileH = 0, tileW = 0\<rparr>)
                0 0 0 0 1 1"

definition monoNodeSrc :: inputReorder where
  "monoNodeSrc = monoNode\<lparr>color := Some monoColor, albedo := None, normal := None\<rparr>"

text \<open>
  Three nodes that pass the four assertions: one with source origin row -1, one with an
  albedo image of size 0 x 0 beside a 1 x 1 color image, one with a tile of height
  \<open>2^31 - 1\<close> and source origin row 1.
\<close>

definition unitColor :: image where
  "unitColor = \<lparr>numChannels = 3, height = 1, width = 1,
                pixels = (\<lambda>h w. Vec3f (Fin 0) (Fin 0) (Fin 0))\<rparr>"

definition emptyAlbedo :: image where
  "emptyAlbedo = \<lparr>numChannels = 3, height = 0, width = 0,
                  pixels = (\<lambda>h w. Vec3f (Fin 0) (Fin 0) (Fin 0))\<rparr>"

definition negOriginNode :: inputReorder where
  "negOriginNode =
     \<lparr>color = Some unitColor, albedo = None, normal = None,
      dst = \<lparr>dimC = 3, dimH = 1, dimW = 1, elems = (\<lambda>p. Fin 0)\<rparr>,
      tile = \<lparr>hSrcBegin = - 1, wSrcBegin = 0, hDstBegin = 0, wDstBegin = 0, tileH = 1, tileW = 1\<rparr>,
      transferFunc = \<lparr>getInputScale = Fin 1, forward = (\<lambda>v. v)\<rparr>, hdr = False, snorm = False\<rparr>"

definition smallAlbedoNode :: inputReorder where
  "smallAlbedoNode =
     \<lparr>color = Some unitColor, albedo = Some emptyAlbedo, normal = None,
      dst = \<lparr>dimC = 6, dimH = 1, dimW = 1, elems = (\<lambda>p. Fin 0)\<rparr>,
      tile = \<lparr>hSrcBegin = 0, wSrcBegin = 0, hDstBegin = 0, wDstBegin = 0, tileH = 1, tileW = 1\<rparr>,
      transferFunc = \<lparr>getInputScale = Fin 1, forward = (\<lambda>v. v)\<rparr>, hdr = False, snorm = False\<rparr>"

definition wrapNode :: inputReorder where
  "wrapNode =
     \<lparr>color = Some unitColor, albedo = None, normal = None,
      dst = \<lparr>dimC = 3, dimH = 1, dimW = 1, elems = (\<lambda>p. Fin 0)\<rparr>,
      tile = \<lparr>hSrcBegin = 1, wSrcBegin = 0, hDstBegin = - 2147483646, wDstBegin = 0,
              tileH = 2147483647, tileW = 1\<rparr>,
      transferFunc = \<lparr>getInputScale = Fin 1, forward = (\<lambda>v. v)\<rparr>, hdr = False, snorm = False\<rparr>"

text \<open>
  Two optional images are present or absent alike and, if present, have the same pixel at
  (h, w).
\<close>

definition agreeAt :: "image option \<Rightarrow> image option \<Rightarrow> int \<Rightarrow> int \<Rightarrow> bool" where
  "agreeAt a b h w \<longleftrightarrow>
     (case a of None \<Rightarrow> b = None
      | Some x \<Rightarrow> (case b of None \<Rightarrow> False | Some y \<Rightarrow> pixels x h w = pixels y h w))"

text \<open>
  A second color image that agrees with \<open>exColor\<close> at the source pixel (0, 0) only, and
  a node that uses it on a destination with other previous contents.
\<close>

definition exColor2 :: image where
  "exColor2 = \<lparr>numChannels = 3, height = 2, width = 2,
               pixels = (\<lambda>h w. if h = 0 \<and> w = 0 then Vec3f (Fin (1 / 4)) NaN PInf
                                else Vec3f (Fin 9) (Fin 9) (Fin 9))\<rparr>"

text \<open>
  A tile that is not zero, for the contents of the member \<open>tile\<close> before the
  constructor's body runs.
\<close>

definition staleTile :: reorderTile where
  "staleTile = \<lparr>hSrcBegin = 0, wSrcBegin = 0, hDstBegin = 1, wDstBegin = 1, tileH = 2, tileW = 2\<rparr>"

definition exNode2 :: inputReorder where
  "exNode2 = exNode\<lparr>color := Some exColor2, dst := exDst\<lparr>elems := (\<lambda>p. Fin 3)\<rparr>\<rparr>"

section \<open>The kernel, step by step\<close>

lemma wrote_trans:
  "wrote t t1 h w c0 c1 g \<Longrightarrow> wrote t1 t2 h w c1 c2 g' \<Longrightarrow> c0 \<le> c1 \<Longrightarrow> c1 \<le> c2 \<Longrightarrow>
   wrote t t2 h w c0 c2 (\<lambda>k. if k < c1 then g k else g' k)"
  by (auto simp: wrote_def)

lemma wrote_cong:
  "wrote t t' h w c0 c1 g \<Longrightarrow> (\<And>k. c0 \<le> k \<Longrightarrow> k < c1 \<Longrightarrow> g k = g' k) \<Longrightarrow> wrote t t' h w c0 c1 g'"
  by (auto simp: wrote_def)

lemma tensor_set_Inr:
  "tensor_set t c h w v = Inr t' \<Longrightarrow>
   0 \<le> c \<and> c < int (dimC t) \<and> 0 \<le> h \<and> h < int (dimH t) \<and> 0 \<le> w \<and> w < int (dimW t) \<and>
   wrote t t' h w c (c + 1) (\<lambda>k. v)"
  by (auto simp: tensor_set_def wrote_def split: if_splits)

lemma set3_Inr:
  assumes "set3 t c h w v = Inr t'"
  shows "0 \<le> c \<and> c + 3 \<le> int (dimC t) \<and> 0 \<le> h \<and> h < int (dimH t) \<and> 0 \<le> w \<and> w < int (dimW t) \<and>
         wrote t t' h w c (c + 3) (\<lambda>k. comp3 v (k - c))"
  using assms
  by (auto simp: set3_def tensor_set_def wrote_def comp3_def split: if_splits sum.splits)

lemma set3_ok:
  "0 \<le> c \<Longrightarrow> c + 3 \<le> int (dimC t) \<Longrightarrow> 0 \<le> h \<Longrightarrow> h < int (dimH t) \<Longrightarrow> 0 \<le> w \<Longrightarrow> w < int (dimW t) \<Longrightarrow>
   \<exists>t'. set3 t c h w v = Inr t'"
  by (auto simp: set3_def tensor_set_def split: if_splits sum.splits)

lemma set3_Inl: "set3 t c h w v = Inl e \<Longrightarrow> e = DstOutOfBounds"
  by (auto simp: set3_def tensor_set_def split: if_splits sum.splits)

lemma storeZeros_Inr:
  "storeZeros t c h w = Inr t' \<Longrightarrow> wrote t t' h w c (int (dimC t)) (\<lambda>k. Fin 0)"
proof (induction t c h w rule: storeZeros.induct)
  case (1 t c h w)
  show ?case
  proof (cases "c < int (dimC t)")
    case False
    with "1.prems" show ?thesis
      by (auto simp: storeZeros.simps [of t c] wrote_def)
  next
    case True
    with "1.prems" obtain t1 where s: "storeZero t c h w = Inr t1"
      and r: "storeZeros t1 (c + 1) h w = Inr t'"
      by (auto simp: storeZeros.simps [of t c] split: sum.splits)
    from s have w1: "wrote t t1 h w c (c + 1) (\<lambda>k. Fin 0)"
      by (auto simp: storeZero_def dest: tensor_set_Inr)
    from "1.IH" [OF True s r] have w2: "wrote t1 t' h w (c + 1) (int (dimC t1)) (\<lambda>k. Fin 0)" .
    from w1 have d: "dimC t1 = dimC t" by (simp add: wrote_def)
    from wrote_trans [OF w1 w2] True d
    have "wrote t t' h w c (int (dimC t)) (\<lambda>k. if k < c + 1 then Fin 0 else Fin 0)" by simp
    then show ?thesis by simp
  qed
qed

lemma storeZeros_Inl: "storeZeros t c h w = Inl e \<Longrightarrow> e = DstOutOfBounds"
proof (induction t c h w rule: storeZeros.induct)
  case (1 t c h w)
  then show ?case
    by (auto simp: storeZeros.simps [of t c] storeZero_def tensor_set_def split: if_splits sum.splits)
qed

lemma storeZeros_ok:
  "0 \<le> c \<or> int (dimC t) \<le> c \<Longrightarrow> 0 \<le> h \<Longrightarrow> h < int (dimH t) \<Longrightarrow> 0 \<le> w \<Longrightarrow> w < int (dimW t) \<Longrightarrow>
   \<exists>t'. storeZeros t c h w = Inr t'"
proof (induction t c h w rule: storeZeros.induct)
  case (1 t c h w)
  show ?case
  proof (cases "c < int (dimC t)")
    case False
    then show ?thesis by (simp add: storeZeros.simps [of t c])
  next
    case True
    with "1.prems" have s: "storeZero t c h w = Inr (t\<lparr>elems := (elems t)((c, h, w) := Fin 0)\<rparr>)"
      by (auto simp: storeZero_def tensor_set_def)
    from "1.IH" [OF True s] "1.prems" True
    obtain t' where "storeZeros (t\<lparr>elems := (elems t)((c, h, w) := Fin 0)\<rparr>) (c + 1) h w = Inr t'"
      by auto
    with True s show ?thesis by (simp add: storeZeros.simps [of t c])
  qed
qed

lemma storeColor_set3: "storeColor n t c h w v = set3 t c h w (colorValue n v)"
  by (simp add: storeColor_def colorValue_def Let_def)

lemma storeAlbedo_set3: "storeAlbedo n t c h w v = set3 t c h w (albedoValue n v)"
  by (simp add: storeAlbedo_def albedoValue_def Let_def)

lemma storeNormal_set3: "storeNormal n t c h w v = set3 t c h w (normalValue n v)"
  by (simp add: storeNormal_def normalValue_def Let_def)

lemma storeImage_Inr:
  assumes "storeImage store img hs ws h w (t, c) = Inr (t', c')"
    and "\<And>t c v. store t c h w v = set3 t c h w (f v)"
  shows "c' = c + chans img \<and> (img \<noteq> None \<longrightarrow> 0 \<le> c \<and> c' \<le> int (dimC t)) \<and>
         wrote t t' h w c c' (\<lambda>k. comp3 (f (pixels (the img) hs ws)) (k - c))"
proof (cases img)
  case None
  with assms(1) show ?thesis
    by (auto simp: storeImage_def chans_def wrote_def)
next
  case (Some i)
  with assms obtain v where g: "get3 i hs ws = Inr v" and s: "set3 t c h w (f v) = Inr t'"
    and c': "c' = c + 3"
    by (auto simp: storeImage_def split: sum.splits)
  from g have v: "v = pixels i hs ws" by (auto simp: get3_def split: if_splits)
  from set3_Inr [OF s] v c' Some show ?thesis by (simp add: chans_def)
qed

lemma storeImage_Inl:
  assumes "storeImage store img hs ws h w tc = Inl e"
    and "\<And>t c v. store t c h w v = set3 t c h w (f v)"
  shows "(e = SrcOutOfBounds \<and> \<not> readable img hs ws) \<or>
         (e = DstOutOfBounds \<and> img \<noteq> None \<and>
          \<not> (0 \<le> snd tc \<and> snd tc + 3 \<le> int (dimC (fst tc)) \<and> inDst (fst tc) h w))"
proof (cases img)
  case None
  with assms(1) show ?thesis by (simp add: storeImage_def)
next
  case (Some i)
  show ?thesis
  proof (cases "get3 i hs ws")
    case (Inl e')
    with assms(1) Some show ?thesis
      by (auto simp: storeImage_def get3_def readable_def split: if_splits)
  next
    case (Inr v)
    with assms Some have s: "set3 (fst tc) (snd tc) h w (f v) = Inl e"
      by (auto simp: storeImage_def split: sum.splits)
    from set3_Inl [OF s] have e: "e = DstOutOfBounds" .
    have "\<not> (0 \<le> snd tc \<and> snd tc + 3 \<le> int (dimC (fst tc)) \<and> inDst (fst tc) h w)"
    proof
      assume "0 \<le> snd tc \<and> snd tc + 3 \<le> int (dimC (fst tc)) \<and> inDst (fst tc) h w"
      then have "\<exists>t'. set3 (fst tc) (snd tc) h w (f v) = Inr t'"
        by (intro set3_ok) (auto simp: inDst_def)
      with s show False by simp
    qed
    with e Some show ?thesis by simp
  qed
qed

lemma chans_ge0: "0 \<le> chans i"
  by (simp add: chans_def)

lemma kernel_Inr:
  assumes "kernel n t h w = Inr t'"
  shows "wrote t t' h w 0 (int (dimC t)) (pixelValue n h w)"
proof (cases "inTile n h w")
  case False
  with assms have "storeZeros t 0 h w = Inr t'"
    by (auto simp: kernel_def inTile_def Let_def split: if_splits)
  from storeZeros_Inr [OF this] have "wrote t t' h w 0 (int (dimC t)) (\<lambda>k. Fin 0)" .
  then show ?thesis
    by (rule wrote_cong) (use False in \<open>simp add: pixelValue_def\<close>)
next
  case True
  define hs where "hs = srcRow n h"
  define ws where "ws = srcCol n w"
  from assms True obtain t1 c1 t2 c2 t3 c3 where
    s1: "storeImage (storeColor n) (color n) hs ws h w (t, 0) = Inr (t1, c1)" and
    s2: "storeImage (storeAlbedo n) (albedo n) hs ws h w (t1, c1) = Inr (t2, c2)" and
    s3: "storeImage (storeNormal n) (normal n) hs ws h w (t2, c2) = Inr (t3, c3)" and
    s4: "storeZeros t3 c3 h w = Inr t'"
    by (auto simp: kernel_def inTile_def Let_def hs_def ws_def srcRow_def srcCol_def
             split: if_splits sum.splits)
  note r1 = storeImage_Inr [OF s1 storeColor_set3]
  note r2 = storeImage_Inr [OF s2 storeAlbedo_set3]
  note r3 = storeImage_Inr [OF s3 storeNormal_set3]
  note r4 = storeZeros_Inr [OF s4]
  from r1 r2 r3 have d: "dimC t1 = dimC t" "dimC t2 = dimC t" "dimC t3 = dimC t"
    by (simp_all add: wrote_def)
  have c: "0 \<le> c1" "c1 \<le> c2" "c2 \<le> c3" "c1 = chans (color n)" "c2 = c1 + chans (albedo n)"
    "c3 = c2 + chans (normal n)"
    using r1 r2 r3 chans_ge0 by simp_all
  have le: "c3 \<le> int (dimC t) \<or> c3 = 0"
    using r1 r2 r3 d c by (auto simp: chans_def split: if_splits)
  have w12: "wrote t t2 h w 0 c2 (\<lambda>k. if k < c1 then comp3 (colorValue n (pixels (the (color n)) hs ws)) (k - 0)
       else comp3 (albedoValue n (pixels (the (albedo n)) hs ws)) (k - c1))"
    using wrote_trans [of t t1 h w 0 c1 _ t2 c2] r1 r2 c by simp
  have w13: "wrote t t3 h w 0 c3 (\<lambda>k. if k < c2 then (if k < c1 then comp3 (colorValue n (pixels (the (color n)) hs ws)) (k - 0)
       else comp3 (albedoValue n (pixels (the (albedo n)) hs ws)) (k - c1))
       else comp3 (normalValue n (pixels (the (normal n)) hs ws)) (k - c2))"
    using wrote_trans [OF w12, of t3 c3] r3 c by simp
  have w14: "wrote t t' h w 0 (int (dimC t)) (\<lambda>k. if k < c3 then (if k < c2 then (if k < c1 then comp3 (colorValue n (pixels (the (color n)) hs ws)) (k - 0)
       else comp3 (albedoValue n (pixels (the (albedo n)) hs ws)) (k - c1))
       else comp3 (normalValue n (pixels (the (normal n)) hs ws)) (k - c2)) else Fin 0)"
    using wrote_trans [OF w13, of t' "int (dimC t)"] r4 d c le by auto
  show ?thesis
    by (rule wrote_cong [OF w14]) (use True c in \<open>auto simp: pixelValue_def Let_def hs_def ws_def\<close>)
qed

lemma wrote_dims:
  "wrote t t' h w c0 c1 g \<Longrightarrow> dimC t' = dimC t \<and> inDst t' h' w' = inDst t h' w'"
  by (simp add: wrote_def inDst_def)

lemma chans_Some: "i \<noteq> None \<Longrightarrow> chans i = 3"
  by (simp add: chans_def)

lemma kernel_Inl:
  assumes "kernel n t h w = Inl e"
  shows "(e = SrcOutOfBounds \<and> inTile n h w \<and>
            \<not> (readable (color n) (srcRow n h) (srcCol n w) \<and>
               readable (albedo n) (srcRow n h) (srcCol n w) \<and>
               readable (normal n) (srcRow n h) (srcCol n w))) \<or>
         (e = DstOutOfBounds \<and>
            \<not> (inDst t h w \<and>
               (inTile n h w \<longrightarrow> chans (color n) + chans (albedo n) + chans (normal n) \<le> int (dimC t))))"
proof (cases "inTile n h w")
  case False
  with assms have z: "storeZeros t 0 h w = Inl e"
    by (auto simp: kernel_def inTile_def Let_def split: if_splits)
  have "\<not> inDst t h w"
  proof
    assume "inDst t h w"
    then have "\<exists>t'. storeZeros t 0 h w = Inr t'"
      by (intro storeZeros_ok) (auto simp: inDst_def)
    with z show False by simp
  qed
  with storeZeros_Inl [OF z] show ?thesis by simp
next
  case True
  define hs where "hs = srcRow n h"
  define ws where "ws = srcCol n w"
  define r1 where "r1 = storeImage (storeColor n) (color n) hs ws h w (t, 0)"
  have k: "kernel n t h w =
    (case r1 of Inl e \<Rightarrow> Inl e | Inr tc1 \<Rightarrow>
      (case storeImage (storeAlbedo n) (albedo n) hs ws h w tc1 of Inl e \<Rightarrow> Inl e | Inr tc2 \<Rightarrow>
        (case storeImage (storeNormal n) (normal n) hs ws h w tc2 of Inl e \<Rightarrow> Inl e
         | Inr tc3 \<Rightarrow> storeZeros (fst tc3) (snd tc3) h w)))"
    using True unfolding kernel_def inTile_def Let_def hs_def ws_def srcRow_def srcCol_def r1_def
    by (simp cong: sum.case_cong)
  show ?thesis
  proof (cases r1)
    case (Inl e1)
    with k assms have "storeImage (storeColor n) (color n) hs ws h w (t, 0) = Inl e"
      by (simp add: r1_def)
    from storeImage_Inl [OF this storeColor_set3] True show ?thesis
      using chans_ge0 [of "albedo n"] chans_ge0 [of "normal n"] chans_Some [of "color n"]
      by (auto simp: hs_def ws_def)
  next
    case (Inr tc1)
    obtain t1 c1 where tc1: "tc1 = (t1, c1)" by (cases tc1)
    from Inr tc1 have s1: "storeImage (storeColor n) (color n) hs ws h w (t, 0) = Inr (t1, c1)"
      by (simp add: r1_def)
    note i1 = storeImage_Inr [OF s1 storeColor_set3]
    from i1 have c1: "c1 = chans (color n)" by simp
    from i1 have d1: "dimC t1 = dimC t" "inDst t1 h w = inDst t h w"
      by (blast dest: wrote_dims)+
    show ?thesis
    proof (cases "storeImage (storeAlbedo n) (albedo n) hs ws h w (t1, c1)")
      case (Inl e2)
      with k assms Inr tc1 have "storeImage (storeAlbedo n) (albedo n) hs ws h w (t1, c1) = Inl e"
        by simp
      from storeImage_Inl [OF this storeAlbedo_set3] True c1 d1 show ?thesis
        using chans_ge0 [of "color n"] chans_ge0 [of "normal n"] chans_Some [of "albedo n"]
        by (auto simp: hs_def ws_def)
    next
      case (Inr tc2)
      obtain t2 c2 where tc2: "tc2 = (t2, c2)" by (cases tc2)
      from Inr tc2 have s2: "storeImage (storeAlbedo n) (albedo n) hs ws h w (t1, c1) = Inr (t2, c2)"
        by simp
      note i2 = storeImage_Inr [OF s2 storeAlbedo_set3]
      from i2 c1 have c2: "c2 = chans (color n) + chans (albedo n)" by simp
      from i2 have "dimC t2 = dimC t1" "inDst t2 h w = inDst t1 h w"
        by (blast dest: wrote_dims)+
      with d1 have d2: "dimC t2 = dimC t" "inDst t2 h w = inDst t h w"
        by simp_all
      show ?thesis
      proof (cases "storeImage (storeNormal n) (normal n) hs ws h w (t2, c2)")
        case (Inl e3)
        with k assms s1 s2 have "storeImage (storeNormal n) (normal n) hs ws h w (t2, c2) = Inl e"
          by (simp add: r1_def)
        from storeImage_Inl [OF this storeNormal_set3] True c2 d2 show ?thesis
          using chans_ge0 [of "color n"] chans_ge0 [of "albedo n"] chans_Some [of "normal n"]
          by (auto simp: hs_def ws_def)
      next
        case (Inr tc3)
        obtain t3 c3 where tc3: "tc3 = (t3, c3)" by (cases tc3)
        from Inr tc3 have s3: "storeImage (storeNormal n) (normal n) hs ws h w (t2, c2) = Inr (t3, c3)"
          by simp
        note i3 = storeImage_Inr [OF s3 storeNormal_set3]
        from k assms s1 s2 s3 have z: "storeZeros t3 c3 h w = Inl e"
          by (simp add: r1_def)
        have c3: "0 \<le> c3"
          using i3 c2 chans_ge0 [of "color n"] chans_ge0 [of "albedo n"] chans_ge0 [of "normal n"]
          by simp
        have "\<not> inDst t3 h w"
        proof
          assume "inDst t3 h w"
          with c3 have "\<exists>t'. storeZeros t3 c3 h w = Inr t'"
            by (intro storeZeros_ok) (auto simp: inDst_def)
          with z show False by simp
        qed
        moreover from i3 have "inDst t3 h w = inDst t2 h w"
          by (blast dest: wrote_dims)
        ultimately have "\<not> inDst t h w" using d2 by simp
        with storeZeros_Inl [OF z] show ?thesis by simp
      qed
    qed
  qed
qed

lemma kernel_ok:
  assumes "inDst t h w"
    and "inTile n h w \<Longrightarrow>
           chans (color n) + chans (albedo n) + chans (normal n) \<le> int (dimC t) \<and>
           readable (color n) (srcRow n h) (srcCol n w) \<and>
           readable (albedo n) (srcRow n h) (srcCol n w) \<and>
           readable (normal n) (srcRow n h) (srcCol n w)"
  shows "\<exists>t'. kernel n t h w = Inr t'"
proof (cases "kernel n t h w")
  case (Inr t')
  then show ?thesis by simp
next
  case (Inl e)
  from kernel_Inl [OF this] assms show ?thesis by auto
qed

section \<open>Runs\<close>

lemma runKernels_Inr:
  "runKernels n t ps = Inr t' \<Longrightarrow>
   dimC t' = dimC t \<and> dimH t' = dimH t \<and> dimW t' = dimW t \<and>
   (\<forall>k h w. elems t' (k, h, w) =
      (if (h, w) \<in> set ps \<and> 0 \<le> k \<and> k < int (dimC t) then pixelValue n h w k
       else elems t (k, h, w)))"
proof (induction ps arbitrary: t)
  case Nil
  then show ?case by simp
next
  case (Cons p ps)
  from Cons.prems obtain t1 where k: "kernel n t (fst p) (snd p) = Inr t1"
    and r: "runKernels n t1 ps = Inr t'"
    by (auto split: sum.splits)
  from kernel_Inr [OF k] have w: "wrote t t1 (fst p) (snd p) 0 (int (dimC t)) (pixelValue n (fst p) (snd p))" .
  from Cons.IH [OF r] w show ?case
    by (cases p) (auto simp: wrote_def)
qed

lemma runKernels_ok:
  assumes "\<And>h w. (h, w) \<in> set ps \<Longrightarrow> inDst t h w"
    and "\<And>h w. (h, w) \<in> set ps \<Longrightarrow> inTile n h w \<Longrightarrow>
           chans (color n) + chans (albedo n) + chans (normal n) \<le> int (dimC t) \<and>
           readable (color n) (srcRow n h) (srcCol n w) \<and>
           readable (albedo n) (srcRow n h) (srcCol n w) \<and>
           readable (normal n) (srcRow n h) (srcCol n w)"
  shows "\<exists>t'. runKernels n t ps = Inr t'"
  using assms
proof (induction ps arbitrary: t)
  case Nil
  then show ?case by simp
next
  case (Cons p ps)
  obtain h w where p: "p = (h, w)" by (cases p)
  have "inDst t h w"
    using Cons.prems(1) [of h w] p by simp
  moreover have "inTile n h w \<Longrightarrow>
           chans (color n) + chans (albedo n) + chans (normal n) \<le> int (dimC t) \<and>
           readable (color n) (srcRow n h) (srcCol n w) \<and>
           readable (albedo n) (srcRow n h) (srcCol n w) \<and>
           readable (normal n) (srcRow n h) (srcCol n w)"
    using Cons.prems(2) [of h w] p by simp
  ultimately obtain t1 where k: "kernel n t h w = Inr t1"
    using kernel_ok [of t h w n] by blast
  from kernel_Inr [OF k] have d: "dimC t1 = dimC t" "\<And>h' w'. inDst t1 h' w' = inDst t h' w'"
    by (blast dest: wrote_dims)+
  have "\<exists>t'. runKernels n t1 ps = Inr t'"
    by (rule Cons.IH) (use Cons.prems d in auto)
  with k p show ?case by simp
qed

lemma runKernels_Inl:
  "runKernels n t ps = Inl e \<Longrightarrow>
   \<exists>t1 h w. (h, w) \<in> set ps \<and> dimC t1 = dimC t \<and> dimH t1 = dimH t \<and> dimW t1 = dimW t \<and>
            kernel n t1 h w = Inl e"
proof (induction ps arbitrary: t)
  case Nil
  then show ?case by simp
next
  case (Cons p ps)
  show ?case
  proof (cases "kernel n t (fst p) (snd p)")
    case (Inl e')
    with Cons.prems have "kernel n t (fst p) (snd p) = Inl e" by simp
    then show ?thesis
      by (intro exI [of _ t] exI [of _ "fst p"] exI [of _ "snd p"]) simp
  next
    case (Inr t1)
    with Cons.prems have r: "runKernels n t1 ps = Inl e" by simp
    from kernel_Inr [OF Inr] have d: "dimC t1 = dimC t" "dimH t1 = dimH t" "dimW t1 = dimW t"
      by (simp_all add: wrote_def)
    from Cons.IH [OF r] d show ?thesis by auto
  qed
qed

lemma set_pixelRange:
  "(h, w) \<in> set (pixelRange H W) \<longleftrightarrow> 0 \<le> h \<and> h < int H \<and> 0 \<le> w \<and> w < int W"
proof -
  have "(\<exists>x<H. h = int x) \<longleftrightarrow> 0 \<le> h \<and> h < int H"
    by (metis nat_less_iff of_nat_0_le_iff of_nat_less_iff zero_le_imp_eq_int)
  moreover have "(\<exists>x<W. w = int x) \<longleftrightarrow> 0 \<le> w \<and> w < int W"
    by (metis nat_less_iff of_nat_0_le_iff of_nat_less_iff zero_le_imp_eq_int)
  moreover have "(h, w) \<in> set (pixelRange H W) \<longleftrightarrow> (\<exists>x<H. h = int x) \<and> (\<exists>y<W. w = int y)"
    by (fastforce simp: pixelRange_def image_iff)
  ultimately show ?thesis
    by simp
qed

lemma executeKernel_Inr:
  assumes "executeKernel n inp = Inr t'"
  shows "tileAsserts n inp \<and> dimC t' = dimC (dst n) \<and> dimH t' = dimH (dst n) \<and> dimW t' = dimW (dst n) \<and>
         (\<forall>k h w. 0 \<le> k \<and> k < int (dimC (dst n)) \<and> inDst (dst n) h w \<longrightarrow>
            elems t' (k, h, w) = pixelValue n h w k)"
proof -
  from assms have a: "tileAsserts n inp"
    and r: "runKernels n (dst n) (pixelRange (dimH (dst n)) (dimW (dst n))) = Inr t'"
    by (auto simp: executeKernel_def split: if_splits)
  from runKernels_Inr [OF r] a show ?thesis
    by (simp add: set_pixelRange inDst_def)
qed

lemma executeKernel_elem:
  "executeKernel n inp = Inr t' \<Longrightarrow> 0 \<le> k \<Longrightarrow> k < int (dimC (dst n)) \<Longrightarrow> inDst (dst n) h w \<Longrightarrow>
   elems t' (k, h, w) = pixelValue n h w k"
  using executeKernel_Inr [of n inp t'] by blast

lemma add32_id: "- (2 ^ 31) \<le> a + b \<Longrightarrow> a + b < 2 ^ 31 \<Longrightarrow> add32 a b = a + b"
  by (simp add: add32_def)

lemma readable_covers:
  assumes "tileAsserts n inp" "0 \<le> hSrcBegin (tile n)" "0 \<le> wSrcBegin (tile n)"
    "srcSumsFit n" "coversInput inp i" "inTile n h w"
  shows "readable i (srcRow n h) (srcCol n w)"
proof -
  from assms(6) have p: "0 < tileH (tile n)" "0 < tileW (tile n)"
    by (simp_all add: inTile_def)
  with assms(2,3,4) have "add32 (tileH (tile n)) (hSrcBegin (tile n)) = tileH (tile n) + hSrcBegin (tile n)"
    "add32 (tileW (tile n)) (wSrcBegin (tile n)) = tileW (tile n) + wSrcBegin (tile n)"
    by (simp_all add: add32_id srcSumsFit_def)
  with assms(1) have "tileH (tile n) + hSrcBegin (tile n) \<le> int (height inp)"
    "tileW (tile n) + wSrcBegin (tile n) \<le> int (width inp)"
    by (simp_all add: tileAsserts_def)
  with assms(2,3,5,6) show ?thesis
    by (auto simp: coversInput_def readable_def inTile_def srcRow_def srcCol_def
             split: option.splits)
qed

lemma sameSize_covers: "sameSize inp i \<Longrightarrow> coversInput inp i"
  by (auto simp: sameSize_def coversInput_def split: option.splits)

lemma executeKernel_ok_gen:
  assumes "tileAsserts n inp"
    and "\<And>h w. inDst (dst n) h w \<Longrightarrow> inTile n h w \<Longrightarrow>
           chans (color n) + chans (albedo n) + chans (normal n) \<le> int (dimC (dst n)) \<and>
           readable (color n) (srcRow n h) (srcCol n w) \<and>
           readable (albedo n) (srcRow n h) (srcCol n w) \<and>
           readable (normal n) (srcRow n h) (srcCol n w)"
  shows "\<exists>t'. executeKernel n inp = Inr t'"
proof -
  have "\<exists>t'. runKernels n (dst n) (pixelRange (dimH (dst n)) (dimW (dst n))) = Inr t'"
    by (rule runKernels_ok) (use assms(2) in \<open>auto simp: set_pixelRange inDst_def\<close>)
  with assms(1) show ?thesis by (simp add: executeKernel_def)
qed

lemma executeKernel_ok:
  assumes "executable n inp"
  shows "\<exists>t'. executeKernel n inp = Inr t'"
proof (rule executeKernel_ok_gen)
  from assms show "tileAsserts n inp" by (simp add: executable_def)
next
  fix h w assume "inDst (dst n) h w" "inTile n h w"
  with assms show "chans (color n) + chans (albedo n) + chans (normal n) \<le> int (dimC (dst n)) \<and>
           readable (color n) (srcRow n h) (srcCol n w) \<and>
           readable (albedo n) (srcRow n h) (srcCol n w) \<and>
           readable (normal n) (srcRow n h) (srcCol n w)"
    by (auto simp: executable_def intro: readable_covers sameSize_covers)
qed

section \<open>Properties\<close>

lemma exNode_executable: "executable exNode exColor"
  by (simp add: executable_def tileAsserts_def add32_def srcSumsFit_def sameSize_def chans_def
                exNode_def exColor_def exAlbedo_def exNormal_def exDst_def)

text \<open>
  Claim C2 (zero padding). For a destination pixel inside the tensor whose offset from the
  tile origin lies outside the tile, the kernel returns normally and has written 0 to
  every channel of that pixel; hence after a run every such pixel of the destination is 0
  in all its channels.
\<close>

theorem zero_padding:
  assumes "\<not> inTile n hDst wDst"
  shows "(\<forall>t. inDst t hDst wDst \<longrightarrow>
            (\<exists>t'. kernel n t hDst wDst = Inr t' \<and>
               (\<forall>c. 0 \<le> c \<and> c < int (dimC t) \<longrightarrow> elems t' (c, hDst, wDst) = Fin 0))) \<and>
         (\<forall>u c. executeKernel n inp = Inr u \<and> inDst (dst n) hDst wDst \<and>
                0 \<le> c \<and> c < int (dimC (dst n)) \<longrightarrow> elems u (c, hDst, wDst) = Fin 0)"
proof (intro conjI allI impI)
  fix t assume d: "inDst t hDst wDst"
  with assms obtain t' where k: "kernel n t hDst wDst = Inr t'"
    using kernel_ok [of t hDst wDst n] by blast
  from kernel_Inr [OF k] assms
  have "\<forall>c. 0 \<le> c \<and> c < int (dimC t) \<longrightarrow> elems t' (c, hDst, wDst) = Fin 0"
    by (simp add: wrote_def pixelValue_def)
  with k show "\<exists>t'. kernel n t hDst wDst = Inr t' \<and>
            (\<forall>c. 0 \<le> c \<and> c < int (dimC t) \<longrightarrow> elems t' (c, hDst, wDst) = Fin 0)"
    by blast
next
  fix u c
  assume a: "executeKernel n inp = Inr u \<and> inDst (dst n) hDst wDst \<and>
                0 \<le> c \<and> c < int (dimC (dst n))"
  then have "elems u (c, hDst, wDst) = pixelValue n hDst wDst c"
    by (intro executeKernel_elem [of n inp]) auto
  with assms show "elems u (c, hDst, wDst) = Fin 0"
    by (simp add: pixelValue_def)
qed

theorem zero_padding_witness:
  "\<exists>u. executeKernel exNode exColor = Inr u \<and> elems u (8, 0, 3) = Fin 0 \<and>
       elems exDst (8, 0, 3) = Fin 7"
proof -
  from executeKernel_ok [OF exNode_executable] obtain u where u: "executeKernel exNode exColor = Inr u" ..
  have o: "\<not> inTile exNode 0 3"
    by (simp add: inTile_def exNode_def)
  have d: "inDst (dst exNode) 0 3 \<and> (0::int) \<le> 8 \<and> 8 < int (dimC (dst exNode))"
    by (simp add: inDst_def exDst_def exNode_def)
  from zero_padding [OF o, of exColor, THEN conjunct2, rule_format, of u 8] u d
  have "elems u (8, 0, 3) = Fin 0" by blast
  moreover have "elems exDst (8, 0, 3) = Fin 7" by (simp add: exDst_def)
  ultimately show ?thesis using u by blast
qed

lemma pixelRange_1_1: "pixelRange (Suc 0) (Suc 0) = [(0, 0)]"
  by (simp add: pixelRange_def)

lemma flt_max_pos: "1 < flt_max"
  by (simp add: flt_max_def)

text \<open>
  Claim C1 as stated, with the upper bound +infinity under \<open>hdr\<close>, fails on a color
  pixel whose red value is plus infinity. Take input scale 1 and a \<open>forward\<close> that
  scales by \<open>2^-120\<close>. The kernel clamps to the largest finite float and stores its
  image under \<open>forward\<close>, \<open>256 - 2^-16\<close>, in channel 0: a finite number between 255 and
  256, and it stays one when the destination keeps it in half precision. The claim's
  pipeline clamps to plus infinity, whose image under \<open>forward\<close> is plus infinity.
\<close>

theorem color_upper_bound_counterexample:
  "storedWithin (executeKernel hdrNode hdrColor) (0, 0, 0) 255 256 \<and>
   comp3 (specColor hdrNode (pixels hdrColor 0 0)) 0 = PInf"
proof
  have "kernel hdrNode hdrDst 0 0 =
     Inr (hdrDst\<lparr>elems := (elems hdrDst)((0, 0, 0) := Fin (256 - 1 / 2 ^ 16), (1, 0, 0) := Fin 0,
                                        (2, 0, 0) := Fin 0)\<rparr>)"
    by (simp add: kernel_def storeImage_def get3_def storeColor_def set3_def tensor_set_def
          storeZeros.simps hdrNode_def hdrColor_def hdrDst_def Let_def vec3f_mul_def
          nan_to_zero_def nan_to_zero1_def clamp_def clamp1_def f32_min_def f32_max_def
          round_f32_def flt_max_def)
  then have "executeKernel hdrNode hdrColor =
     Inr (hdrDst\<lparr>elems := (elems hdrDst)((0, 0, 0) := Fin (256 - 1 / 2 ^ 16), (1, 0, 0) := Fin 0,
                                        (2, 0, 0) := Fin 0)\<rparr>)"
    by (simp add: executeKernel_def tileAsserts_def add32_def pixelRange_1_1)
       (simp add: hdrNode_def hdrColor_def hdrDst_def pixelRange_1_1)
  then show "storedWithin (executeKernel hdrNode hdrColor) (0, 0, 0) 255 256"
    by (simp add: storedWithin_def)
next
  show "comp3 (specColor hdrNode (pixels hdrColor 0 0)) 0 = PInf"
    using flt_max_pos
    by (simp add: comp3_def specColor_def hdrNode_def hdrColor_def Let_def vec3f_mul_def
          nan_to_zero_def nan_to_zero1_def clamp_def clamp1_def f32_min_def f32_max_def
          round_f32_def)
qed

lemma pixelValue_color:
  "inTile n h w \<Longrightarrow> color n = Some ci \<Longrightarrow> 0 \<le> k \<Longrightarrow> k < 3 \<Longrightarrow>
   pixelValue n h w k = comp3 (colorValue n (pixels ci (srcRow n h) (srcCol n w))) k"
  by (simp add: pixelValue_def chans_def Let_def)

lemma pixelValue_albedo:
  "inTile n h w \<Longrightarrow> albedo n = Some ai \<Longrightarrow> 0 \<le> k \<Longrightarrow> k < 3 \<Longrightarrow>
   pixelValue n h w (chans (color n) + k) = comp3 (albedoValue n (pixels ai (srcRow n h) (srcCol n w))) k"
  by (simp add: pixelValue_def chans_def Let_def)

lemma pixelValue_normal:
  "inTile n h w \<Longrightarrow> normal n = Some ni \<Longrightarrow> 0 \<le> k \<Longrightarrow> k < 3 \<Longrightarrow>
   pixelValue n h w (chans (color n) + chans (albedo n) + k) =
     comp3 (normalValue n (pixels ni (srcRow n h) (srcCol n w))) k"
  by (simp add: pixelValue_def chans_def Let_def)

lemma pixelValue_rest:
  "chans (color n) + chans (albedo n) + chans (normal n) \<le> k \<Longrightarrow> pixelValue n h w k = Fin 0"
  using chans_ge0 [of "color n"] chans_ge0 [of "albedo n"] chans_ge0 [of "normal n"]
  by (simp add: pixelValue_def Let_def)

lemma executable_chans:
  "executable n inp \<Longrightarrow> chans (color n) + chans (albedo n) + chans (normal n) \<le> int (dimC (dst n))"
  by (simp add: executable_def)

text \<open>
  Claim C1 (color), as amended. For a pixel of the destination inside the tile, when a
  color image is present, channels 0, 1, 2 hold the source pixel multiplied by the input
  scale, with NaN replaced by 0, clamped to the lower bound (snorm ? -1 : 0) and the upper
  bound (hdr ? largest finite float : 1), mapped by v * 0.5 + 0.5 if snorm, and passed
  through the transfer function's forward, in that order.
\<close>

theorem color_channels:
  assumes "executable n inp" and "color n = Some ci"
    and "inDst (dst n) hDst wDst" and "inTile n hDst wDst"
    and "k = 0 \<or> k = 1 \<or> k = 2"
  shows "\<exists>t'. executeKernel n inp = Inr t' \<and>
           elems t' (k, hDst, wDst) =
             comp3 (forward (transferFunc n)
                      (let scaled = vec3f_mul (pixels ci (hDst - hDstBegin (tile n) + hSrcBegin (tile n))
                                                         (wDst - wDstBegin (tile n) + wSrcBegin (tile n)))
                                      (getInputScale (transferFunc n));
                           sane = nan_to_zero scaled;
                           clamped = clamp sane (if snorm n then Fin (- 1) else Fin 0)
                                       (if hdr n then Fin flt_max else Fin 1)
                       in if snorm n then vec3f_add (vec3f_mul clamped (Fin (1 / 2))) (Fin (1 / 2))
                          else clamped)) k"
proof -
  from executeKernel_ok [OF assms(1)] obtain t' where e: "executeKernel n inp = Inr t'" ..
  from assms(2) executable_chans [OF assms(1)] chans_ge0 [of "albedo n"] chans_ge0 [of "normal n"]
  have c: "3 \<le> int (dimC (dst n))" by (simp add: chans_def)
  with assms(5) have k: "0 \<le> k" "k < 3" "k < int (dimC (dst n))" by auto
  from executeKernel_elem [OF e k(1) k(3) assms(3)]
  have "elems t' (k, hDst, wDst) = pixelValue n hDst wDst k" .
  also have "\<dots> = comp3 (colorValue n (pixels ci (srcRow n hDst) (srcCol n wDst))) k"
    by (rule pixelValue_color [OF assms(4) assms(2) k(1) k(2)])
  finally show ?thesis using e
    by (simp add: colorValue_def srcRow_def srcCol_def Let_def)
qed

theorem color_channels_witness:
  "\<exists>t'. executeKernel exNode exColor = Inr t' \<and>
     elems t' (0, 1, 1) = Fin (1 / 2) \<and> elems t' (1, 1, 1) = Fin 0 \<and> elems t' (2, 1, 1) = Fin 1"
proof -
  have a: "color exNode = Some exColor" "inDst (dst exNode) 1 1" "inTile exNode 1 1"
    by (simp_all add: exNode_def inDst_def inTile_def exDst_def)
  have v: "comp3 v 0 = vx v" "comp3 v 1 = vy v" "comp3 v 2 = vz v" for v
    by (simp_all add: comp3_def)
  from color_channels [OF exNode_executable a, of 0] color_channels [OF exNode_executable a, of 1]
    color_channels [OF exNode_executable a, of 2] flt_max_pos
  show ?thesis
    by (auto simp: v exNode_def exColor_def exTransfer_def Let_def vec3f_mul_def nan_to_zero_def
          nan_to_zero1_def clamp_def clamp1_def f32_min_def f32_max_def round_f32_def)
qed

lemma comp3_simps: "comp3 v 0 = vx v" "comp3 v 1 = vy v" "comp3 v 2 = vz v"
  by (simp_all add: comp3_def)

lemma exNode_facts:
  "color exNode = Some exColor" "albedo exNode = Some exAlbedo" "normal exNode = Some exNormal"
  "inDst (dst exNode) 1 1" "inTile exNode 1 1" "dimC (dst exNode) = 9"
  by (simp_all add: exNode_def inDst_def inTile_def exDst_def)

text \<open>
  Claim C3 (channel order). For a pixel inside the tile: with color, albedo and normal
  present and C = 9, channels 0..2 hold the transformed color, 3..5 the transformed albedo
  and 6..8 the transformed normal; with only color present and C = 9, channels 3..8 are 0;
  and always every channel from the end of the present images up to C is 0.
\<close>

theorem channel_ordering:
  assumes "executable n inp" and "inDst (dst n) hDst wDst" and "inTile n hDst wDst"
  shows "\<exists>t'. executeKernel n inp = Inr t' \<and>
           (\<forall>ci ai ni k. color n = Some ci \<and> albedo n = Some ai \<and> normal n = Some ni \<and>
                dimC (dst n) = 9 \<and> (k = 0 \<or> k = 1 \<or> k = 2) \<longrightarrow>
                elems t' (k, hDst, wDst) =
                  comp3 (colorValue n (pixels ci (srcRow n hDst) (srcCol n wDst))) k \<and>
                elems t' (3 + k, hDst, wDst) =
                  comp3 (albedoValue n (pixels ai (srcRow n hDst) (srcCol n wDst))) k \<and>
                elems t' (6 + k, hDst, wDst) =
                  comp3 (normalValue n (pixels ni (srcRow n hDst) (srcCol n wDst))) k) \<and>
           (\<forall>c. color n \<noteq> None \<and> albedo n = None \<and> normal n = None \<and> dimC (dst n) = 9 \<and>
                3 \<le> c \<and> c < 9 \<longrightarrow> elems t' (c, hDst, wDst) = Fin 0) \<and>
           (\<forall>c. chans (color n) + chans (albedo n) + chans (normal n) \<le> c \<and>
                c < int (dimC (dst n)) \<longrightarrow> elems t' (c, hDst, wDst) = Fin 0)"
proof -
  from executeKernel_ok [OF assms(1)] obtain t' where e: "executeKernel n inp = Inr t'" ..
  have el: "elems t' (c, hDst, wDst) = pixelValue n hDst wDst c"
    if "0 \<le> c" "c < int (dimC (dst n))" for c
    by (rule executeKernel_elem [OF e that assms(2)])
  have all3: "elems t' (k, hDst, wDst) =
                  comp3 (colorValue n (pixels ci (srcRow n hDst) (srcCol n wDst))) k \<and>
                elems t' (3 + k, hDst, wDst) =
                  comp3 (albedoValue n (pixels ai (srcRow n hDst) (srcCol n wDst))) k \<and>
                elems t' (6 + k, hDst, wDst) =
                  comp3 (normalValue n (pixels ni (srcRow n hDst) (srcCol n wDst))) k"
    if p: "color n = Some ci" "albedo n = Some ai" "normal n = Some ni" "dimC (dst n) = 9"
      and k: "k = 0 \<or> k = 1 \<or> k = 2" for ci ai ni k
  proof -
    from k have k': "0 \<le> k" "k < 3" by auto
    from p have ch: "chans (color n) = 3" "chans (albedo n) = 3" by (simp_all add: chans_def)
    from k' p(4) have "elems t' (k, hDst, wDst) = pixelValue n hDst wDst k"
      by (intro el) simp_all
    moreover from k' p(4) have "elems t' (3 + k, hDst, wDst) = pixelValue n hDst wDst (3 + k)"
      by (intro el) simp_all
    moreover from k' p(4) have "elems t' (6 + k, hDst, wDst) = pixelValue n hDst wDst (6 + k)"
      by (intro el) simp_all
    ultimately show ?thesis
      using pixelValue_color [OF assms(3) p(1) k'] pixelValue_albedo [OF assms(3) p(2) k']
        pixelValue_normal [OF assms(3) p(3) k'] ch
      by simp
  qed
  have rest: "elems t' (c, hDst, wDst) = Fin 0"
    if c: "chans (color n) + chans (albedo n) + chans (normal n) \<le> c" "c < int (dimC (dst n))" for c
  proof -
    from c chans_ge0 [of "color n"] chans_ge0 [of "albedo n"] chans_ge0 [of "normal n"]
    have "0 \<le> c" by simp
    from el [OF this c(2)] pixelValue_rest [OF c(1)] show ?thesis by simp
  qed
  have only: "elems t' (c, hDst, wDst) = Fin 0"
    if "color n \<noteq> None" "albedo n = None" "normal n = None" "dimC (dst n) = 9" "3 \<le> c" "c < 9" for c
    by (rule rest) (use that in \<open>simp_all add: chans_def\<close>)
  from e all3 only rest show ?thesis by blast
qed

theorem channel_ordering_witness:
  "\<exists>t'. executeKernel exNode exColor = Inr t' \<and>
     elems t' (0, 1, 1) = Fin (1 / 2) \<and> elems t' (3, 1, 1) = Fin 1 \<and> elems t' (6, 1, 1) = Fin 0"
proof -
  from channel_ordering [OF exNode_executable exNode_facts(4) exNode_facts(5)]
  obtain t' where e: "executeKernel exNode exColor = Inr t'"
    and a: "\<forall>ci ai ni k. color exNode = Some ci \<and> albedo exNode = Some ai \<and> normal exNode = Some ni \<and>
                dimC (dst exNode) = 9 \<and> (k = 0 \<or> k = 1 \<or> k = 2) \<longrightarrow>
                elems t' (k, 1, 1) =
                  comp3 (colorValue exNode (pixels ci (srcRow exNode 1) (srcCol exNode 1))) k \<and>
                elems t' (3 + k, 1, 1) =
                  comp3 (albedoValue exNode (pixels ai (srcRow exNode 1) (srcCol exNode 1))) k \<and>
                elems t' (6 + k, 1, 1) =
                  comp3 (normalValue exNode (pixels ni (srcRow exNode 1) (srcCol exNode 1))) k"
    by blast
  from a [rule_format, of exColor exAlbedo exNormal 0] exNode_facts flt_max_pos
  have "elems t' (0, 1, 1) = Fin (1 / 2) \<and> elems t' (3, 1, 1) = Fin 1 \<and> elems t' (6, 1, 1) = Fin 0"
    by (simp add: comp3_simps colorValue_def albedoValue_def normalValue_def exNode_def exColor_def
          exAlbedo_def exNormal_def exTransfer_def Let_def vec3f_mul_def vec3f_add_def
          nan_to_zero_def nan_to_zero1_def clamp_def clamp1_def f32_min_def f32_max_def round_f32_def)
  with e show ?thesis by blast
qed

text \<open>
  Claim C4 (albedo). For a pixel inside the tile, when an albedo image is present, its three
  channels (after the color channels, if any) hold: without a color image, the source
  pixel times the input scale, NaN replaced by 0, clamped to [0, 1], passed through
  forward; with a color image, the source pixel with NaN replaced by 0 and clamped to
  [0, 1], neither scaled nor passed through forward.
\<close>

theorem albedo_channels:
  assumes "executable n inp" and "albedo n = Some ai"
    and "inDst (dst n) hDst wDst" and "inTile n hDst wDst"
    and "k = 0 \<or> k = 1 \<or> k = 2"
  shows "\<exists>t'. executeKernel n inp = Inr t' \<and>
           elems t' ((if color n = None then 0 else 3) + k, hDst, wDst) =
             comp3 (let p = pixels ai (hDst - hDstBegin (tile n) + hSrcBegin (tile n))
                                      (wDst - wDstBegin (tile n) + wSrcBegin (tile n))
                    in if color n = None
                       then forward (transferFunc n)
                              (clamp (nan_to_zero (vec3f_mul p (getInputScale (transferFunc n))))
                                 (Fin 0) (Fin 1))
                       else clamp (nan_to_zero p) (Fin 0) (Fin 1)) k"
proof -
  from executeKernel_ok [OF assms(1)] obtain t' where e: "executeKernel n inp = Inr t'" ..
  from assms(5) have k: "0 \<le> k" "k < 3" by auto
  from assms(2) executable_chans [OF assms(1)] chans_ge0 [of "color n"] chans_ge0 [of "normal n"] k
  have c: "0 \<le> chans (color n) + k" "chans (color n) + k < int (dimC (dst n))"
    by (simp_all add: chans_def)
  from executeKernel_elem [OF e c assms(3)]
  have "elems t' (chans (color n) + k, hDst, wDst) = pixelValue n hDst wDst (chans (color n) + k)" .
  also have "\<dots> = comp3 (albedoValue n (pixels ai (srcRow n hDst) (srcCol n wDst))) k"
    by (rule pixelValue_albedo [OF assms(4) assms(2) k])
  finally show ?thesis using e
    by (simp add: albedoValue_def srcRow_def srcCol_def Let_def chans_def)
qed

theorem albedo_channels_witness:
  "\<exists>t'. executeKernel exNode exColor = Inr t' \<and>
     elems t' (3, 1, 1) = Fin 1 \<and> elems t' (4, 1, 1) = Fin (1 / 2) \<and> elems t' (5, 1, 1) = Fin 0"
proof -
  note a = exNode_executable exNode_facts(2) exNode_facts(4) exNode_facts(5)
  from albedo_channels [OF a, of 0] albedo_channels [OF a, of 1] albedo_channels [OF a, of 2]
  show ?thesis
    by (auto simp: comp3_simps exNode_def exAlbedo_def Let_def nan_to_zero_def
          nan_to_zero1_def clamp_def clamp1_def f32_min_def f32_max_def)
qed

lemma executable_withForward: "executable (withForward n f) inp = executable n inp"
  by (simp add: executable_def withForward_def tileAsserts_def srcSumsFit_def)

lemma normalValue_withForward: "normalValue (withForward n f) v = normalValue n v"
  by (simp add: normalValue_def withForward_def)

text \<open>
  Claim C5 (normal). For a pixel inside the tile, when a normal image is present, its three
  channels (after those of color and albedo, if any) hold the source pixel, times the
  input scale only if there is no color image, with NaN replaced by 0, clamped to [-1, 1]
  and mapped by v * 0.5 + 0.5. The transfer function's forward plays no part: replacing
  it by any other function leaves these channels unchanged.
\<close>

theorem normal_channels:
  assumes "executable n inp" and "normal n = Some ni"
    and "inDst (dst n) hDst wDst" and "inTile n hDst wDst"
    and "k = 0 \<or> k = 1 \<or> k = 2"
  shows "\<exists>t'. executeKernel n inp = Inr t' \<and>
           elems t' (chans (color n) + chans (albedo n) + k, hDst, wDst) =
             comp3 (let p = pixels ni (hDst - hDstBegin (tile n) + hSrcBegin (tile n))
                                      (wDst - wDstBegin (tile n) + wSrcBegin (tile n));
                        scaled = (if color n = None
                                  then vec3f_mul p (getInputScale (transferFunc n)) else p);
                        clamped = clamp (nan_to_zero scaled) (Fin (- 1)) (Fin 1)
                    in vec3f_add (vec3f_mul clamped (Fin (1 / 2))) (Fin (1 / 2))) k \<and>
           (\<forall>f. \<exists>u. executeKernel (withForward n f) inp = Inr u \<and>
                  elems u (chans (color n) + chans (albedo n) + k, hDst, wDst) =
                  elems t' (chans (color n) + chans (albedo n) + k, hDst, wDst))"
proof -
  define c where "c = chans (color n) + chans (albedo n) + k"
  from assms(5) have k: "0 \<le> k" "k < 3" by auto
  from assms(2) executable_chans [OF assms(1)] chans_ge0 [of "color n"] chans_ge0 [of "albedo n"] k
  have c: "0 \<le> c" "c < int (dimC (dst n))"
    by (simp_all add: chans_def c_def)
  have val: "elems u (c, hDst, wDst) = comp3 (normalValue n (pixels ni (srcRow n hDst) (srcCol n wDst))) k"
    if u: "executeKernel (withForward n f) inp = Inr u" for u f
  proof -
    have "elems u (c, hDst, wDst) = pixelValue (withForward n f) hDst wDst c"
      by (rule executeKernel_elem [OF u]) (use c assms(3) in \<open>simp_all add: withForward_def\<close>)
    also have "\<dots> = comp3 (normalValue (withForward n f) (pixels ni (srcRow n hDst) (srcCol n wDst))) k"
      using pixelValue_normal [of "withForward n f" hDst wDst ni k] assms(2,4) k
      by (simp add: withForward_def c_def inTile_def srcRow_def srcCol_def)
    finally show ?thesis by (simp add: normalValue_withForward)
  qed
  have id: "withForward n (forward (transferFunc n)) = n"
    by (simp add: withForward_def)
  from executeKernel_ok [OF assms(1)] obtain t' where e: "executeKernel n inp = Inr t'" ..
  from val [of "forward (transferFunc n)" t'] e id
  have v: "elems t' (c, hDst, wDst) = comp3 (normalValue n (pixels ni (srcRow n hDst) (srcCol n wDst))) k"
    by simp
  have "\<exists>u. executeKernel (withForward n f) inp = Inr u \<and> elems u (c, hDst, wDst) = elems t' (c, hDst, wDst)" for f
  proof -
    from assms(1) have "executable (withForward n f) inp" by (simp add: executable_withForward)
    from executeKernel_ok [OF this] obtain u where u: "executeKernel (withForward n f) inp = Inr u" ..
    from val [OF u] v u show ?thesis by simp
  qed
  with e v show ?thesis
    unfolding c_def by (simp add: normalValue_def srcRow_def srcCol_def Let_def)
qed

theorem normal_channels_witness:
  "\<exists>t'. executeKernel exNode exColor = Inr t' \<and>
     elems t' (6, 1, 1) = Fin 0 \<and> elems t' (7, 1, 1) = Fin (1 / 2) \<and> elems t' (8, 1, 1) = Fin 1"
proof -
  note a = exNode_executable exNode_facts(3) exNode_facts(4) exNode_facts(5)
  from normal_channels [OF a, of 0] normal_channels [OF a, of 1] normal_channels [OF a, of 2]
    flt_max_pos
  show ?thesis
    by (auto simp: comp3_simps chans_def exNode_def exNormal_def Let_def nan_to_zero_def
          nan_to_zero1_def clamp_def clamp1_def f32_min_def f32_max_def vec3f_mul_def
          vec3f_add_def round_f32_def)
qed















text \<open>
  Claim C7 as stated fails for a color image with one channel and a destination with one
  channel: \<open>setSrc\<close> accepts them (1 >= 1), and the kernel then stores three channels.
\<close>

theorem channel_bound_counterexample:
  "setSrc monoNode (Some monoColor) None None = Inr monoNodeSrc \<and>
   executeKernel monoNodeSrc monoColor = Inl DstOutOfBounds"
proof
  show "setSrc monoNode (Some monoColor) None None = Inr monoNodeSrc"
    by (simp add: setSrc_def chanCount_def monoNodeSrc_def monoNode_def monoColor_def monoDst_def
          InputReorderNode_def setTile_def)
next
  have "kernel monoNodeSrc monoDst 0 0 = Inl DstOutOfBounds"
    by (simp add: kernel_def storeImage_def get3_def storeColor_def set3_def tensor_set_def
          monoNodeSrc_def monoNode_def monoColor_def monoDst_def InputReorderNode_def setTile_def
          Let_def)
  then show "executeKernel monoNodeSrc monoColor = Inl DstOutOfBounds"
    by (simp add: executeKernel_def tileAsserts_def add32_def pixelRange_1_1)
       (simp add: monoNodeSrc_def monoNode_def monoColor_def monoDst_def InputReorderNode_def
          setTile_def pixelRange_1_1)
qed

lemma chans_le_chanCount:
  "(\<And>img. i = Some img \<Longrightarrow> 3 \<le> numChannels img) \<Longrightarrow> chans i \<le> int (chanCount i)"
  by (cases i) (simp_all add: chans_def chanCount_def)

lemma kernel_no_dst_error:
  assumes "inDst t h w"
    and "chans (color n) + chans (albedo n) + chans (normal n) \<le> int (dimC t)"
  shows "kernel n t h w \<noteq> Inl DstOutOfBounds"
proof
  assume "kernel n t h w = Inl DstOutOfBounds"
  from kernel_Inl [OF this] assms show False by simp
qed

lemma executeKernel_no_dst_error:
  assumes "chans (color n) + chans (albedo n) + chans (normal n) \<le> int (dimC (dst n))"
  shows "executeKernel n inp \<noteq> Inl DstOutOfBounds"
proof
  assume "executeKernel n inp = Inl DstOutOfBounds"
  then have "runKernels n (dst n) (pixelRange (dimH (dst n)) (dimW (dst n))) = Inl DstOutOfBounds"
    by (simp add: executeKernel_def split: if_splits)
  from runKernels_Inl [OF this] obtain t1 h w where
    p: "(h, w) \<in> set (pixelRange (dimH (dst n)) (dimW (dst n)))"
    and d: "dimC t1 = dimC (dst n)" "dimH t1 = dimH (dst n)" "dimW t1 = dimW (dst n)"
    and k: "kernel n t1 h w = Inl DstOutOfBounds"
    by blast
  from p d have "inDst t1 h w" by (simp add: set_pixelRange inDst_def)
  from kernel_no_dst_error [OF this] assms d k show False by simp
qed

text \<open>
  Claim C7 (channel bound), as amended. \<open>setSrc\<close> succeeds exactly when the
  destination's channel count is at least the sum of the channel counts of the images
  present. When it succeeds and every image present has at least 3 channels, no kernel
  call on a pixel of the destination, and no run, writes outside the destination's
  channels.
\<close>

theorem channel_bound:
  assumes "\<forall>img. col = Some img \<or> alb = Some img \<or> nrm = Some img \<longrightarrow> 3 \<le> numChannels img"
  shows "(setSrc n0 col alb nrm = Inl AssertFailed \<longleftrightarrow>
            dimC (dst n0) < chanCount col + chanCount alb + chanCount nrm) \<and>
         (\<forall>n. setSrc n0 col alb nrm = Inr n \<longrightarrow>
            chanCount col + chanCount alb + chanCount nrm \<le> dimC (dst n) \<and>
            executeKernel n inp \<noteq> Inl DstOutOfBounds \<and>
            (\<forall>t h w. dimC t = dimC (dst n) \<and> inDst t h w \<longrightarrow>
               kernel n t h w \<noteq> Inl DstOutOfBounds))"
proof (intro conjI allI impI)
  show "setSrc n0 col alb nrm = Inl AssertFailed \<longleftrightarrow>
            dimC (dst n0) < chanCount col + chanCount alb + chanCount nrm"
    by (auto simp: setSrc_def)
next
  fix n assume s: "setSrc n0 col alb nrm = Inr n"
  then have n: "n = n0\<lparr>color := col, albedo := alb, normal := nrm\<rparr>"
    and le: "chanCount col + chanCount alb + chanCount nrm \<le> dimC (dst n0)"
    by (auto simp: setSrc_def split: if_splits)
  from n le show "chanCount col + chanCount alb + chanCount nrm \<le> dimC (dst n)" by simp
  from assms have "chans col \<le> int (chanCount col)" "chans alb \<le> int (chanCount alb)"
    "chans nrm \<le> int (chanCount nrm)"
    by (simp_all add: chans_le_chanCount)
  with le n have c: "chans (color n) + chans (albedo n) + chans (normal n) \<le> int (dimC (dst n))"
    by simp
  from executeKernel_no_dst_error [OF c] show "executeKernel n inp \<noteq> Inl DstOutOfBounds" .
  fix t h w assume "dimC t = dimC (dst n) \<and> inDst t h w"
  with c show "kernel n t h w \<noteq> Inl DstOutOfBounds"
    by (intro kernel_no_dst_error) simp_all
qed

theorem channel_bound_witness:
  "setSrc (exNode\<lparr>color := None, albedo := None, normal := None\<rparr>)
          (Some exColor) (Some exAlbedo) (Some exNormal) = Inr exNode \<and>
   executeKernel exNode exColor \<noteq> Inl DstOutOfBounds \<and> kernel exNode exDst 1 1 \<noteq> Inl DstOutOfBounds"
proof -
  have s: "setSrc (exNode\<lparr>color := None, albedo := None, normal := None\<rparr>)
          (Some exColor) (Some exAlbedo) (Some exNormal) = Inr exNode"
    by (simp add: setSrc_def chanCount_def exNode_def exColor_def exAlbedo_def exNormal_def exDst_def)
  have "\<forall>img. Some exColor = Some img \<or> Some exAlbedo = Some img \<or> Some exNormal = Some img \<longrightarrow>
          3 \<le> numChannels img"
    by (auto simp: exColor_def exAlbedo_def exNormal_def)
  from channel_bound [OF this, of "exNode\<lparr>color := None, albedo := None, normal := None\<rparr>" exColor] s
  have "executeKernel exNode exColor \<noteq> Inl DstOutOfBounds"
    and "\<forall>t h w. dimC t = dimC (dst exNode) \<and> inDst t h w \<longrightarrow> kernel exNode t h w \<noteq> Inl DstOutOfBounds"
    by blast+
  with s show ?thesis
    by (simp add: exNode_def inDst_def exDst_def)
qed

text \<open>
  Claim C8 as stated fails at three inputs, each passing the four assertions and then
  reading outside an image: a tile whose source origin is row -1; an albedo image smaller
  than the input image (0 x 0 against 1 x 1); and a tile of height \<open>2^31 - 1\<close> with
  source origin row 1, for which the sum in the first assertion wraps to \<open>-2^31\<close>.
\<close>

theorem tile_bounds_counterexample:
  "(tileAsserts negOriginNode unitColor \<and>
      executeKernel negOriginNode unitColor = Inl SrcOutOfBounds) \<and>
   (tileAsserts smallAlbedoNode unitColor \<and>
      executeKernel smallAlbedoNode unitColor = Inl SrcOutOfBounds) \<and>
   (tileAsserts wrapNode unitColor \<and>
      executeKernel wrapNode unitColor = Inl SrcOutOfBounds)"
proof (intro conjI)
  show a1: "tileAsserts negOriginNode unitColor"
    by (simp add: tileAsserts_def add32_def negOriginNode_def unitColor_def)
  have "kernel negOriginNode (dst negOriginNode) 0 0 = Inl SrcOutOfBounds"
    by (simp add: kernel_def storeImage_def get3_def negOriginNode_def unitColor_def Let_def)
  with a1 show "executeKernel negOriginNode unitColor = Inl SrcOutOfBounds"
    by (simp add: executeKernel_def) (simp add: negOriginNode_def pixelRange_1_1)
next
  show a2: "tileAsserts smallAlbedoNode unitColor"
    by (simp add: tileAsserts_def add32_def smallAlbedoNode_def unitColor_def)
  have "kernel smallAlbedoNode (dst smallAlbedoNode) 0 0 = Inl SrcOutOfBounds"
    by (simp add: kernel_def storeImage_def get3_def storeColor_def set3_def tensor_set_def
          smallAlbedoNode_def unitColor_def emptyAlbedo_def Let_def)
  with a2 show "executeKernel smallAlbedoNode unitColor = Inl SrcOutOfBounds"
    by (simp add: executeKernel_def) (simp add: smallAlbedoNode_def pixelRange_1_1)
next
  show a3: "tileAsserts wrapNode unitColor"
    by (simp add: tileAsserts_def add32_def wrapNode_def unitColor_def)
  have "kernel wrapNode (dst wrapNode) 0 0 = Inl SrcOutOfBounds"
    by (simp add: kernel_def storeImage_def get3_def wrapNode_def unitColor_def Let_def)
  with a3 show "executeKernel wrapNode unitColor = Inl SrcOutOfBounds"
    by (simp add: executeKernel_def) (simp add: wrapNode_def pixelRange_1_1)
qed

text \<open>
  Claim C8 (tile bounds), as amended. A run first checks the four tile assertions, with
  the sums formed in \<open>int\<close>, and stops with an assertion failure, running no kernel, if
  one of them is false. When they hold, and moreover the tile's source origin is not
  negative, the two source sums do not exceed the range of \<open>int\<close>, and every image
  present is at least as large as the input image, then for every pixel inside the tile
  the read of every image present succeeds, at the coordinates
  (hDst - hDstBegin + hSrcBegin, wDst - wDstBegin + wSrcBegin); so no kernel call and no
  run reads outside its sources.
\<close>

theorem tile_bounds:
  "(\<not> tileAsserts n inp \<longrightarrow> executeKernel n inp = Inl AssertFailed) \<and>
   (tileAsserts n inp \<and> 0 \<le> hSrcBegin (tile n) \<and> 0 \<le> wSrcBegin (tile n) \<and>
    tileH (tile n) + hSrcBegin (tile n) < 2 ^ 31 \<and> tileW (tile n) + wSrcBegin (tile n) < 2 ^ 31 \<and>
    coversInput inp (color n) \<and> coversInput inp (albedo n) \<and> coversInput inp (normal n) \<longrightarrow>
      (\<forall>hDst wDst img.
          inTile n hDst wDst \<and>
          (color n = Some img \<or> albedo n = Some img \<or> normal n = Some img) \<longrightarrow>
          get3 img (hDst - hDstBegin (tile n) + hSrcBegin (tile n))
                   (wDst - wDstBegin (tile n) + wSrcBegin (tile n)) =
            Inr (pixels img (hDst - hDstBegin (tile n) + hSrcBegin (tile n))
                            (wDst - wDstBegin (tile n) + wSrcBegin (tile n)))) \<and>
      (\<forall>t hDst wDst. kernel n t hDst wDst \<noteq> Inl SrcOutOfBounds) \<and>
      executeKernel n inp \<noteq> Inl SrcOutOfBounds)"
proof (intro conjI impI)
  assume "\<not> tileAsserts n inp"
  then show "executeKernel n inp = Inl AssertFailed" by (simp add: executeKernel_def)
next
  assume a: "tileAsserts n inp \<and> 0 \<le> hSrcBegin (tile n) \<and> 0 \<le> wSrcBegin (tile n) \<and>
    tileH (tile n) + hSrcBegin (tile n) < 2 ^ 31 \<and> tileW (tile n) + wSrcBegin (tile n) < 2 ^ 31 \<and>
    coversInput inp (color n) \<and> coversInput inp (albedo n) \<and> coversInput inp (normal n)"
  then have f: "srcSumsFit n" by (simp add: srcSumsFit_def)
  have r: "readable i (srcRow n h) (srcCol n w)"
    if "inTile n h w" "coversInput inp i" for h w i
    using a f that by (intro readable_covers [of n inp]) simp_all
  have g: "get3 img (srcRow n h) (srcCol n w) = Inr (pixels img (srcRow n h) (srcCol n w))"
    if "inTile n h w" "color n = Some img \<or> albedo n = Some img \<or> normal n = Some img" for h w img
  proof -
    from that(2) a have "coversInput inp (Some img)" by auto
    from r [OF that(1) this] show ?thesis by (simp add: readable_def get3_def)
  qed
  then show "\<forall>hDst wDst img.
          inTile n hDst wDst \<and>
          (color n = Some img \<or> albedo n = Some img \<or> normal n = Some img) \<longrightarrow>
          get3 img (hDst - hDstBegin (tile n) + hSrcBegin (tile n))
                   (wDst - wDstBegin (tile n) + wSrcBegin (tile n)) =
            Inr (pixels img (hDst - hDstBegin (tile n) + hSrcBegin (tile n))
                            (wDst - wDstBegin (tile n) + wSrcBegin (tile n)))"
    by (simp add: srcRow_def srcCol_def)
  have k: "kernel n t h w \<noteq> Inl SrcOutOfBounds" for t h w
  proof
    assume "kernel n t h w = Inl SrcOutOfBounds"
    from kernel_Inl [OF this] r [of h w] a show False by simp
  qed
  then show "\<forall>t hDst wDst. kernel n t hDst wDst \<noteq> Inl SrcOutOfBounds" by blast
  show "executeKernel n inp \<noteq> Inl SrcOutOfBounds"
  proof
    assume "executeKernel n inp = Inl SrcOutOfBounds"
    then have "runKernels n (dst n) (pixelRange (dimH (dst n)) (dimW (dst n))) = Inl SrcOutOfBounds"
      by (simp add: executeKernel_def split: if_splits)
    from runKernels_Inl [OF this] k show False by blast
  qed
qed

theorem tile_bounds_witness:
  "tileAsserts exNode exColor \<and> inTile exNode 2 2 \<and>
   get3 exAlbedo 1 1 = Inr (pixels exAlbedo 1 1) \<and>
   kernel exNode exDst 2 2 \<noteq> Inl SrcOutOfBounds \<and>
   executeKernel exNode exColor \<noteq> Inl SrcOutOfBounds \<and>
   executeKernel (setTile exNode 0 0 0 0 3 3) exColor = Inl AssertFailed"
proof -
  have a: "tileAsserts exNode exColor \<and> 0 \<le> hSrcBegin (tile exNode) \<and> 0 \<le> wSrcBegin (tile exNode) \<and>
    tileH (tile exNode) + hSrcBegin (tile exNode) < 2 ^ 31 \<and>
    tileW (tile exNode) + wSrcBegin (tile exNode) < 2 ^ 31 \<and>
    coversInput exColor (color exNode) \<and> coversInput exColor (albedo exNode) \<and>
    coversInput exColor (normal exNode)"
    by (simp add: tileAsserts_def add32_def coversInput_def exNode_def exColor_def
          exAlbedo_def exNormal_def exDst_def)
  have b: "\<not> tileAsserts (setTile exNode 0 0 0 0 3 3) exColor"
    by (simp add: tileAsserts_def add32_def setTile_def exNode_def exColor_def exDst_def)
  have c: "inTile exNode 2 2 \<and> (color exNode = Some exAlbedo \<or> albedo exNode = Some exAlbedo \<or>
             normal exNode = Some exAlbedo)"
    by (simp add: inTile_def exNode_def)
  note t1 = tile_bounds [of exNode exColor, THEN conjunct2, rule_format, OF a]
  note t2 = tile_bounds [of "setTile exNode 0 0 0 0 3 3" exColor, THEN conjunct1, rule_format, OF b]
  from t1 have "get3 exAlbedo (2 - hDstBegin (tile exNode) + hSrcBegin (tile exNode))
                   (2 - wDstBegin (tile exNode) + wSrcBegin (tile exNode)) =
            Inr (pixels exAlbedo (2 - hDstBegin (tile exNode) + hSrcBegin (tile exNode))
                            (2 - wDstBegin (tile exNode) + wSrcBegin (tile exNode)))"
    using c by blast
  then have g: "get3 exAlbedo 1 1 = Inr (pixels exAlbedo 1 1)"
    by (simp add: exNode_def)
  from t1 have "kernel exNode exDst 2 2 \<noteq> Inl SrcOutOfBounds"
    "executeKernel exNode exColor \<noteq> Inl SrcOutOfBounds"
    by blast+
  with a c g t2 show ?thesis by blast
qed

text \<open>
  Claim C9 (fresh node). Whatever the member \<open>tile\<close> held before, the constructor's call
  of \<open>setTile\<close> leaves it all zero. For the node as constructed, or after any successful
  \<open>setSrc\<close>, no pixel is inside the tile, the run returns normally and every channel of
  every pixel of the destination is 0.
\<close>

theorem fresh_node_zero:
  "tile (InputReorderNode d tf hdrFlag snormFlag tile0) =
     \<lparr>hSrcBegin = 0, wSrcBegin = 0, hDstBegin = 0, wDstBegin = 0, tileH = 0, tileW = 0\<rparr> \<and>
   (\<forall>n. n = InputReorderNode d tf hdrFlag snormFlag tile0 \<or>
        (\<exists>col alb nrm. setSrc (InputReorderNode d tf hdrFlag snormFlag tile0) col alb nrm = Inr n) \<longrightarrow>
      (\<forall>h w. \<not> inTile n h w) \<and>
      (\<exists>t'. executeKernel n inp = Inr t' \<and>
         (\<forall>c h w. 0 \<le> c \<and> c < int (dimC d) \<and> inDst d h w \<longrightarrow> elems t' (c, h, w) = Fin 0)))"
proof (intro conjI allI impI)
  show "tile (InputReorderNode d tf hdrFlag snormFlag tile0) =
     \<lparr>hSrcBegin = 0, wSrcBegin = 0, hDstBegin = 0, wDstBegin = 0, tileH = 0, tileW = 0\<rparr>"
    by (simp add: InputReorderNode_def setTile_def)
next
  fix n
  assume "n = InputReorderNode d tf hdrFlag snormFlag tile0 \<or>
        (\<exists>col alb nrm. setSrc (InputReorderNode d tf hdrFlag snormFlag tile0) col alb nrm = Inr n)"
  then have t: "tile n = \<lparr>hSrcBegin = 0, wSrcBegin = 0, hDstBegin = 0, wDstBegin = 0, tileH = 0, tileW = 0\<rparr>"
    and d: "dst n = d"
    by (auto simp: InputReorderNode_def setTile_def setSrc_def split: if_splits)
  from t have nt: "\<not> inTile n h w" for h w by (simp add: inTile_def)
  then show "\<not> inTile n h w" for h w .
  from t have "tileAsserts n inp" by (simp add: tileAsserts_def add32_def)
  from executeKernel_ok_gen [OF this] nt obtain t' where e: "executeKernel n inp = Inr t'"
    by blast
  have "elems t' (c, h, w) = Fin 0" if "0 \<le> c \<and> c < int (dimC d) \<and> inDst d h w" for c h w
    using executeKernel_elem [OF e, of c h w] that d nt [of h w] by (simp add: pixelValue_def)
  with e show "\<exists>t'. executeKernel n inp = Inr t' \<and>
         (\<forall>c h w. 0 \<le> c \<and> c < int (dimC d) \<and> inDst d h w \<longrightarrow> elems t' (c, h, w) = Fin 0)"
    by blast
qed

theorem fresh_node_zero_witness:
  "\<exists>n t'. setSrc (InputReorderNode exDst exTransfer False False staleTile)
             (Some exColor) (Some exAlbedo) (Some exNormal) = Inr n \<and>
          executeKernel n exColor = Inr t' \<and> elems t' (0, 1, 1) = Fin 0 \<and>
          elems exDst (0, 1, 1) = Fin 7 \<and> tileH staleTile = 2"
proof -
  define n where "n = (InputReorderNode exDst exTransfer False False staleTile)
                        \<lparr>color := Some exColor, albedo := Some exAlbedo, normal := Some exNormal\<rparr>"
  have s: "setSrc (InputReorderNode exDst exTransfer False False staleTile)
             (Some exColor) (Some exAlbedo) (Some exNormal) = Inr n"
    by (simp add: n_def setSrc_def chanCount_def InputReorderNode_def setTile_def exColor_def
          exAlbedo_def exNormal_def exDst_def)
  have r: "0 \<le> (0::int) \<and> 0 < int (dimC exDst) \<and> inDst exDst 1 1"
    by (simp add: exDst_def inDst_def)
  from s have "n = InputReorderNode exDst exTransfer False False staleTile \<or>
        (\<exists>col alb nrm. setSrc (InputReorderNode exDst exTransfer False False staleTile) col alb nrm = Inr n)"
    by blast
  from fresh_node_zero [of exDst exTransfer False False staleTile exColor, THEN conjunct2, rule_format, OF this]
  obtain t' where e: "executeKernel n exColor = Inr t'"
    and z: "\<forall>c h w. 0 \<le> c \<and> c < int (dimC exDst) \<and> inDst exDst h w \<longrightarrow> elems t' (c, h, w) = Fin 0"
    by blast
  from z r have "elems t' (0, 1, 1) = Fin 0" by blast
  moreover have "elems exDst (0, 1, 1) = Fin 7" by (simp add: exDst_def)
  moreover have "tileH staleTile = 2" by (simp add: staleTile_def)
  ultimately show ?thesis using s e by blast
qed

lemma agreeAt_chans: "agreeAt a b h w \<Longrightarrow> chans a = chans b \<and> (a = None \<longleftrightarrow> b = None)"
  by (auto simp: agreeAt_def chans_def split: option.splits)

lemma agreeAt_pixels: "agreeAt a b h w \<Longrightarrow> a \<noteq> None \<Longrightarrow> pixels (the a) h w = pixels (the b) h w"
  by (auto simp: agreeAt_def split: option.splits)

lemma pixelValue_pointwise:
  assumes "tile n1 = tile n2" "hdr n1 = hdr n2" "snorm n1 = snorm n2"
    "transferFunc n1 = transferFunc n2"
    "agreeAt (color n1) (color n2) (srcRow n1 hDst) (srcCol n1 wDst)"
    "agreeAt (albedo n1) (albedo n2) (srcRow n1 hDst) (srcCol n1 wDst)"
    "agreeAt (normal n1) (normal n2) (srcRow n1 hDst) (srcCol n1 wDst)"
    "0 \<le> c"
  shows "pixelValue n1 hDst wDst c = pixelValue n2 hDst wDst c"
proof -
  define hs where "hs = srcRow n1 hDst"
  define ws where "ws = srcCol n1 wDst"
  have t: "inTile n2 hDst wDst = inTile n1 hDst wDst" "srcRow n2 hDst = hs" "srcCol n2 wDst = ws"
    "srcRow n1 hDst = hs" "srcCol n1 wDst = ws"
    using assms(1) by (simp_all add: inTile_def srcRow_def srcCol_def hs_def ws_def)
  note a = assms(5,6,7) [unfolded t]
  have c: "chans (color n2) = chans (color n1)" "chans (albedo n2) = chans (albedo n1)"
    "chans (normal n2) = chans (normal n1)" "(color n2 = None) = (color n1 = None)"
    using agreeAt_chans [OF a(1)] agreeAt_chans [OF a(2)] agreeAt_chans [OF a(3)] by simp_all
  have cv: "colorValue n2 v = colorValue n1 v" "albedoValue n2 v = albedoValue n1 v"
    "normalValue n2 v = normalValue n1 v" for v
    using assms(2,3,4) c(4)
    by (simp_all add: colorValue_def albedoValue_def normalValue_def)
  have p: "i1 \<noteq> None \<Longrightarrow> agreeAt i1 i2 hs ws \<Longrightarrow> pixels (the i2) hs ws = pixels (the i1) hs ws"
    for i1 i2
    using agreeAt_pixels [of i1 i2 hs ws] by simp
  have ne: "0 < chans i \<Longrightarrow> i \<noteq> None" for i
    by (cases i) (simp_all add: chans_def)
  show ?thesis
  proof (cases "inTile n1 hDst wDst")
    case False
    then show ?thesis by (simp add: pixelValue_def t)
  next
    case True
    consider (col) "c < chans (color n1)"
      | (alb) "\<not> c < chans (color n1)" "c < chans (color n1) + chans (albedo n1)"
      | (nrm) "\<not> c < chans (color n1) + chans (albedo n1)"
          "c < chans (color n1) + chans (albedo n1) + chans (normal n1)"
      | (rest) "\<not> c < chans (color n1) + chans (albedo n1) + chans (normal n1)"
      using chans_ge0 [of "albedo n1"] chans_ge0 [of "normal n1"] by linarith
    then show ?thesis
    proof cases
      case col
      with assms(8) have "color n1 \<noteq> None" by (intro ne) simp
      from p [OF this a(1)] col True show ?thesis
        by (simp add: pixelValue_def Let_def t c cv)
    next
      case alb
      then have "albedo n1 \<noteq> None" by (intro ne) simp
      from p [OF this a(2)] alb True show ?thesis
        by (simp add: pixelValue_def Let_def t c cv)
    next
      case nrm
      then have "normal n1 \<noteq> None" by (intro ne) simp
      from p [OF this a(3)] nrm True chans_ge0 [of "albedo n1"] show ?thesis
        by (simp add: pixelValue_def Let_def t c cv)
    next
      case rest
      with True chans_ge0 [of "albedo n1"] chans_ge0 [of "normal n1"] show ?thesis
        by (simp add: pixelValue_def Let_def t c cv)
    qed
  qed
qed

text \<open>
  Claim C10 (determinism, pointwise dependence). Take two nodes with the same tile, flags
  and transfer function, whose images are present or absent alike and agree at the one
  source pixel that belongs to the destination pixel (hDst, wDst); the other source
  pixels, the image sizes and the previous contents of the two destinations are
  arbitrary. Then two runs of the kernels that both cover (hDst, wDst), in any order of
  the pixels, leave the same value in every channel of (hDst, wDst); so do two runs of
  \<open>executeKernel\<close>.
\<close>

theorem pointwise_deterministic:
  assumes "tile n1 = tile n2" and "hdr n1 = hdr n2" and "snorm n1 = snorm n2"
    and "transferFunc n1 = transferFunc n2"
    and "agreeAt (color n1) (color n2)
           (hDst - hDstBegin (tile n1) + hSrcBegin (tile n1))
           (wDst - wDstBegin (tile n1) + wSrcBegin (tile n1))"
    and "agreeAt (albedo n1) (albedo n2)
           (hDst - hDstBegin (tile n1) + hSrcBegin (tile n1))
           (wDst - wDstBegin (tile n1) + wSrcBegin (tile n1))"
    and "agreeAt (normal n1) (normal n2)
           (hDst - hDstBegin (tile n1) + hSrcBegin (tile n1))
           (wDst - wDstBegin (tile n1) + wSrcBegin (tile n1))"
    and "0 \<le> c"
  shows "(\<forall>ps1 ps2 t1 t2 u1 u2.
            runKernels n1 t1 ps1 = Inr u1 \<and> runKernels n2 t2 ps2 = Inr u2 \<and>
            (hDst, wDst) \<in> set ps1 \<and> (hDst, wDst) \<in> set ps2 \<and>
            c < int (dimC t1) \<and> c < int (dimC t2) \<longrightarrow>
            elems u1 (c, hDst, wDst) = elems u2 (c, hDst, wDst)) \<and>
         (\<forall>inp1 inp2 u1 u2.
            executeKernel n1 inp1 = Inr u1 \<and> executeKernel n2 inp2 = Inr u2 \<and>
            inDst (dst n1) hDst wDst \<and> inDst (dst n2) hDst wDst \<and>
            c < int (dimC (dst n1)) \<and> c < int (dimC (dst n2)) \<longrightarrow>
            elems u1 (c, hDst, wDst) = elems u2 (c, hDst, wDst))"
proof -
  have pv: "pixelValue n1 hDst wDst c = pixelValue n2 hDst wDst c"
    by (rule pixelValue_pointwise) (use assms in \<open>simp_all add: srcRow_def srcCol_def\<close>)
  have r: "elems u1 (c, hDst, wDst) = elems u2 (c, hDst, wDst)"
    if "runKernels n1 t1 ps1 = Inr u1 \<and> runKernels n2 t2 ps2 = Inr u2 \<and>
        (hDst, wDst) \<in> set ps1 \<and> (hDst, wDst) \<in> set ps2 \<and>
        c < int (dimC t1) \<and> c < int (dimC t2)" for ps1 ps2 t1 t2 u1 u2
  proof -
    from that runKernels_Inr [of n1 t1 ps1 u1] assms(8)
    have "elems u1 (c, hDst, wDst) = pixelValue n1 hDst wDst c" by simp
    moreover from that runKernels_Inr [of n2 t2 ps2 u2] assms(8)
    have "elems u2 (c, hDst, wDst) = pixelValue n2 hDst wDst c" by simp
    ultimately show ?thesis using pv by simp
  qed
  have e: "elems u1 (c, hDst, wDst) = elems u2 (c, hDst, wDst)"
    if "executeKernel n1 inp1 = Inr u1 \<and> executeKernel n2 inp2 = Inr u2 \<and>
        inDst (dst n1) hDst wDst \<and> inDst (dst n2) hDst wDst \<and>
        c < int (dimC (dst n1)) \<and> c < int (dimC (dst n2))" for inp1 inp2 u1 u2
  proof -
    from that executeKernel_elem [of n1 inp1 u1 c hDst wDst] assms(8)
    have "elems u1 (c, hDst, wDst) = pixelValue n1 hDst wDst c" by simp
    moreover from that executeKernel_elem [of n2 inp2 u2 c hDst wDst] assms(8)
    have "elems u2 (c, hDst, wDst) = pixelValue n2 hDst wDst c" by simp
    ultimately show ?thesis using pv by simp
  qed
  from r e show ?thesis by blast
qed

lemma exNode2_executable: "executable exNode2 exColor2"
  by (simp add: executable_def tileAsserts_def add32_def srcSumsFit_def sameSize_def chans_def
        exNode2_def exNode_def exColor2_def exAlbedo_def exNormal_def exDst_def)

theorem pointwise_deterministic_witness:
  "\<exists>u1 u2. executeKernel exNode exColor = Inr u1 \<and> executeKernel exNode2 exColor2 = Inr u2 \<and>
     elems u1 (0, 1, 1) = elems u2 (0, 1, 1) \<and>
     pixels exColor 1 1 \<noteq> pixels exColor2 1 1 \<and> elems (dst exNode) (0, 1, 1) \<noteq> elems (dst exNode2) (0, 1, 1)"
proof -
  from executeKernel_ok [OF exNode_executable] obtain u1 where u1: "executeKernel exNode exColor = Inr u1" ..
  from executeKernel_ok [OF exNode2_executable] obtain u2 where u2: "executeKernel exNode2 exColor2 = Inr u2" ..
  have a: "tile exNode = tile exNode2" "hdr exNode = hdr exNode2" "snorm exNode = snorm exNode2"
    "transferFunc exNode = transferFunc exNode2"
    by (simp_all add: exNode2_def)
  have b: "agreeAt (color exNode) (color exNode2)
           (1 - hDstBegin (tile exNode) + hSrcBegin (tile exNode))
           (1 - wDstBegin (tile exNode) + wSrcBegin (tile exNode))"
    "agreeAt (albedo exNode) (albedo exNode2)
           (1 - hDstBegin (tile exNode) + hSrcBegin (tile exNode))
           (1 - wDstBegin (tile exNode) + wSrcBegin (tile exNode))"
    "agreeAt (normal exNode) (normal exNode2)
           (1 - hDstBegin (tile exNode) + hSrcBegin (tile exNode))
           (1 - wDstBegin (tile exNode) + wSrcBegin (tile exNode))"
    by (simp_all add: agreeAt_def exNode2_def exNode_def exColor_def exColor2_def)
  have d: "inDst (dst exNode) 1 1" "inDst (dst exNode2) 1 1" "0 < int (dimC (dst exNode))"
    "0 < int (dimC (dst exNode2))"
    by (simp_all add: inDst_def exNode2_def exNode_def exDst_def)
  have z: "(0::int) \<le> 0" by simp
  note pd = pointwise_deterministic [OF a b z, THEN conjunct2, rule_format, of exColor u1 exColor2 u2]
  from u1 u2 d have e: "elems u1 (0, 1, 1) = elems u2 (0, 1, 1)"
    by (intro pd) simp
  have x: "pixels exColor 1 1 \<noteq> pixels exColor2 1 1"
    by (simp add: exColor_def exColor2_def)
  have y: "elems (dst exNode) (0, 1, 1) \<noteq> elems (dst exNode2) (0, 1, 1)"
    by (simp add: exNode2_def exNode_def exDst_def)
  from u1 u2 e x y show ?thesis by blast
qed

end
